theory Spec2Isabelle
  imports Main
begin

section \<open>Protocol data\<close>

text \<open>
  The client-facing shape of a source (\<open>DebugProtocol.Source\<close>): a display name, a path
  when the source is addressable on disk, and a \<open>sourceReference\<close> handle when it is not.
\<close>

record Source =
  name :: string
  path :: "string option"
  sourceReference :: "int option"

text \<open>
  What the location converter resolves an internal location to: the client source and the
  client line and column.
\<close>

record ClientLocationInSource =
  source :: Source
  line :: int
  column :: int

text \<open>
  An event body is a JavaScript object: a finite map from field names to values. A field
  is present exactly when its name is in the domain of the map.
\<close>

datatype jsvalue = Str string | Num int | Src Source

type_synonym body = "string \<rightharpoonup> jsvalue"

text \<open>
  The four protocol event kinds. \<open>'cbp\<close> is the client breakpoint
  (\<open>DebugProtocol.Breakpoint\<close>), \<open>'exc\<close> the runtime value of an exception
  (\<open>CDTP.Runtime.RemoteObject\<close>). A Stopped event holds the three constructor arguments
  of \<open>StoppedEvent2\<close>: reason, thread identifier, optional exception.
\<close>

datatype LoadedSourceReason = New | Changed | Removed

datatype ('cbp, 'exc) event =
    Output body
  | LoadedSource LoadedSourceReason Source
  | Breakpoint string 'cbp
  | Stopped string int "'exc option"

text \<open>
  Modelled from the spec: the constructor \<open>OutputEvent\<close> of the package
  \<open>vscode-debugadapter\<close>, which is not under src/. The base event is built from the text and
  the category and carries no other field.
\<close>

definition OutputEvent :: "string \<Rightarrow> string \<Rightarrow> body" where
  "OutputEvent output category = [''category'' \<mapsto> Str category, ''output'' \<mapsto> Str output]"

text \<open>
  Modelled from the spec: the constructors \<open>LoadedSourceEvent\<close> and \<open>BreakpointEvent\<close> of
  the same package, and \<open>StoppedEvent2\<close> of \<open>stoppedEvent.ts\<close>, which is not under src/.
  Each event is built from the arguments it is given and holds them.
\<close>

definition LoadedSourceEvent :: "LoadedSourceReason \<Rightarrow> Source \<Rightarrow> ('cbp, 'exc) event" where
  "LoadedSourceEvent reason src = LoadedSource reason src"

definition BreakpointEvent :: "string \<Rightarrow> 'cbp \<Rightarrow> ('cbp, 'exc) event" where
  "BreakpointEvent reason bp = Breakpoint reason bp"

definition StoppedEvent2 :: "string \<Rightarrow> int \<Rightarrow> 'exc option \<Rightarrow> ('cbp, 'exc) event" where
  "StoppedEvent2 reason threadId exception = Stopped reason threadId exception"

fun threadId :: "('cbp, 'exc) event \<Rightarrow> int option" where
  "threadId (Stopped r t x) = Some t"
| "threadId _ = None"

section \<open>Requests\<close>

text \<open>
  The five request shapes of \<open>eventsToClientReporter.ts\<close>. An optional field is an
  \<open>option\<close>; the field \<open>output\<close> is named \<open>outputText\<close> here, \<open>output\<close> being
  reserved. A \<open>variablesReference\<close> is a handle, an integer. The reason of a loaded source
  is one of the three string literals \<open>new\<close>, \<open>changed\<close> and \<open>removed\<close>.
\<close>

record 'loc IOutputParameters =
  outputText :: string
  category :: string
  variablesReference :: "int option"
  location :: "'loc option"

record 'src ISourceWasLoadedParameters =
  reason :: LoadedSourceReason
  source :: 'src

record 'bps IBPStatusChangedParameters =
  reason :: string
  bpRecipeStatus :: 'bps

record ('frame, 'loc) IExceptionThrownParameters =
  exceptionStackTrace :: "'frame list"
  category :: string
  location :: "'loc option"

record 'exc IDebuggeeIsStoppedParameters =
  reason :: string
  exception :: "'exc option"

section \<open>Session and reporter\<close>

text \<open>
  The state a call can change: the events the session has been handed, oldest first, and
  the handle registry the converters share. A call is followed from its start to its end:
  nothing else runs while it waits for a conversion.
\<close>

record ('cbp, 'exc, 'reg) world =
  sent :: "('cbp, 'exc) event list"
  handles :: 'reg

text \<open>
  Modelled from the spec: \<open>sendEvent\<close> of the session (\<open>session.ts\<close>, not under src/), a sink
  that takes the event, returns nothing and does not fail.
\<close>

definition sendEvent ::
  "('cbp, 'exc) event \<Rightarrow> ('cbp, 'exc, 'reg) world \<Rightarrow> ('cbp, 'exc, 'reg) world" where
  "sendEvent e w = w\<lparr>sent := sent w @ [e]\<rparr>"

text \<open>
  The fields of the class \<open>EventsToClientReporter\<close>. The converters and the printer are
  defined in files that are not under src/, so they are the parameters of the model. A
  converter reads and writes the handle registry and either fails (\<open>Inl\<close>) or returns the
  client shape (\<open>Inr\<close>). The source and breakpoint converters are awaited, and fail by a
  throw or by a rejected promise alike; the location converter is the synchronous one of
  the specification and fails by a throw. The printer is a function of the stack trace
  alone and does not fail, as the specification has it. \<open>THREAD_ID\<close> is the constant
  \<open>ChromeDebugLogic.THREAD_ID\<close>, whose value is not under src/ either. The result of an
  operation is \<open>Inl\<close> when the call fails and \<open>Inr\<close> when it completes; the section on
  throwing and rejecting below tells a throw from a rejected promise.
\<close>

record ('loc, 'src, 'bps, 'frame, 'reg, 'err, 'cbp) EventsToClientReporter =
  toStackTraceString :: "'frame list \<Rightarrow> string"
  toClientLocation :: "'loc \<Rightarrow> 'reg \<Rightarrow> ('err + ClientLocationInSource) \<times> 'reg"
  toSource :: "'src \<Rightarrow> 'reg \<Rightarrow> ('err + Source) \<times> 'reg"
  toBreakpoint :: "'bps \<Rightarrow> 'reg \<Rightarrow> ('err + 'cbp) \<times> 'reg"
  THREAD_ID :: int

text \<open>
  \<open>sendDebuggeeIsStopped\<close> (lines 114 to 116): one Stopped event, built from the reason,
  the fixed thread identifier and the exception, handed to the session.
\<close>

definition sendDebuggeeIsStopped ::
  "('loc, 'src, 'bps, 'frame, 'reg, 'err, 'cbp) EventsToClientReporter \<Rightarrow>
   'exc IDebuggeeIsStoppedParameters \<Rightarrow> ('cbp, 'exc, 'reg) world \<Rightarrow>
   ('err + unit) \<times> ('cbp, 'exc, 'reg) world" where
  "sendDebuggeeIsStopped R params w =
     (Inr (), sendEvent (StoppedEvent2 (IDebuggeeIsStoppedParameters.reason params)
                           (THREAD_ID R) (exception params)) w)"

text \<open>
  Modelled from the spec: \<open>toLocationInSource\<close> of
  \<open>locationInSourceToClientConverter.ts\<close>, which is not under src/. It resolves the
  location to its client shape and attaches the source, the line and the column to the body
  it is given. When the location cannot be resolved the call fails.
\<close>

definition toLocationInSource ::
  "('loc, 'src, 'bps, 'frame, 'reg, 'err, 'cbp) EventsToClientReporter \<Rightarrow>
   'loc \<Rightarrow> body \<Rightarrow> 'reg \<Rightarrow> ('err + body) \<times> 'reg" where
  "toLocationInSource R l b reg =
     (case toClientLocation R l reg of
        (Inl e, reg') \<Rightarrow> (Inl e, reg')
      | (Inr c, reg') \<Rightarrow>
          (Inr (b(''source'' \<mapsto> Src (ClientLocationInSource.source c),
                  ''line'' \<mapsto> Num (line c),
                  ''column'' \<mapsto> Num (column c))), reg'))"

text \<open>
  \<open>sendOutput\<close> (lines 78 to 90). The test of line 81 is JavaScript truthiness: the
  reference is attached when it is defined and not zero. The call of line 86 is not
  awaited, so what \<open>sendOutput\<close> sees of it is what it does before it returns; the
  location converter of the specification does not suspend, so that is all it does: it
  throws, and line 89 is not reached, or it returns with the body updated.
\<close>

definition sendOutput ::
  "('loc, 'src, 'bps, 'frame, 'reg, 'err, 'cbp) EventsToClientReporter \<Rightarrow>
   'loc IOutputParameters \<Rightarrow> ('cbp, 'exc, 'reg) world \<Rightarrow>
   ('err + unit) \<times> ('cbp, 'exc, 'reg) world" where
  "sendOutput R params w =
     (let event = OutputEvent (outputText params) (IOutputParameters.category params);
          event = (case variablesReference params of
                     None \<Rightarrow> event
                   | Some v \<Rightarrow> if v \<noteq> 0 then event(''variablesReference'' \<mapsto> Num v) else event)
      in case IOutputParameters.location params of
           None \<Rightarrow> (Inr (), sendEvent (Output event) w)
         | Some l \<Rightarrow>
             (case toLocationInSource R l event (handles w) of
                (Inl e, reg') \<Rightarrow> (Inl e, w\<lparr>handles := reg'\<rparr>)
              | (Inr event', reg') \<Rightarrow>
                  (Inr (), sendEvent (Output event') (w\<lparr>handles := reg'\<rparr>))))"

text \<open>
  \<open>sendSourceWasLoaded\<close> (lines 92 to 97) and \<open>sendBPStatusChanged\<close> (lines 99 to 104):
  the conversion is awaited, so a converter that throws or whose promise rejects ends the
  call before the event is built; otherwise the event is built from the reason and the
  converted value and handed to the session.
\<close>

definition sendSourceWasLoaded ::
  "('loc, 'src, 'bps, 'frame, 'reg, 'err, 'cbp) EventsToClientReporter \<Rightarrow>
   'src ISourceWasLoadedParameters \<Rightarrow> ('cbp, 'exc, 'reg) world \<Rightarrow>
   ('err + unit) \<times> ('cbp, 'exc, 'reg) world" where
  "sendSourceWasLoaded R params w =
     (case toSource R (ISourceWasLoadedParameters.source params) (handles w) of
        (Inl e, reg') \<Rightarrow> (Inl e, w\<lparr>handles := reg'\<rparr>)
      | (Inr clientSource, reg') \<Rightarrow>
          (Inr (), sendEvent (LoadedSourceEvent (ISourceWasLoadedParameters.reason params)
                               clientSource) (w\<lparr>handles := reg'\<rparr>)))"

definition sendBPStatusChanged ::
  "('loc, 'src, 'bps, 'frame, 'reg, 'err, 'cbp) EventsToClientReporter \<Rightarrow>
   'bps IBPStatusChangedParameters \<Rightarrow> ('cbp, 'exc, 'reg) world \<Rightarrow>
   ('err + unit) \<times> ('cbp, 'exc, 'reg) world" where
  "sendBPStatusChanged R params w =
     (case toBreakpoint R (bpRecipeStatus params) (handles w) of
        (Inl e, reg') \<Rightarrow> (Inl e, w\<lparr>handles := reg'\<rparr>)
      | (Inr breakpointStatus, reg') \<Rightarrow>
          (Inr (), sendEvent (BreakpointEvent (IBPStatusChangedParameters.reason params)
                               breakpointStatus) (w\<lparr>handles := reg'\<rparr>)))"

text \<open>
  \<open>sendExceptionThrown\<close> (lines 106 to 112): the stack trace is rendered and the call is
  handed to \<open>sendOutput\<close> with a new request that has no \<open>variablesReference\<close>.
\<close>

definition sendExceptionThrown ::
  "('loc, 'src, 'bps, 'frame, 'reg, 'err, 'cbp) EventsToClientReporter \<Rightarrow>
   ('frame, 'loc) IExceptionThrownParameters \<Rightarrow> ('cbp, 'exc, 'reg) world \<Rightarrow>
   ('err + unit) \<times> ('cbp, 'exc, 'reg) world" where
  "sendExceptionThrown R params w =
     sendOutput R
       \<lparr>outputText = toStackTraceString R (exceptionStackTrace params),
        IOutputParameters.category = IExceptionThrownParameters.category params,
        variablesReference = None,
        IOutputParameters.location = IExceptionThrownParameters.location params\<rparr> w"

section \<open>Handle registry and source converter\<close>

text \<open>
  Modelled from the spec: the handle registry of \<open>handlesRegistry.ts\<close>, which is not under
  src/. \<open>register\<close> is idempotent per identity: a known identity gets the handle it
  already has, a new identity gets the next unused handle.
\<close>

record 'a HandlesRegistry =
  nextHandle :: int
  issued :: "('a \<times> int) list"

definition register :: "'a \<Rightarrow> 'a HandlesRegistry \<Rightarrow> int \<times> 'a HandlesRegistry" where
  "register x reg =
     (case map_of (issued reg) x of
        Some h \<Rightarrow> (h, reg)
      | None \<Rightarrow>
          (nextHandle reg,
           \<lparr>nextHandle = nextHandle reg + 1, issued = issued reg @ [(x, nextHandle reg)]\<rparr>))"

text \<open>
  An internal loaded source: its identity, and its path when it has an addressable one.
\<close>

record ILoadedSource =
  identity :: string
  filePath :: "string option"

text \<open>
  Modelled from the spec: \<open>toSource\<close> of \<open>sourceToClientConverter.ts\<close>, which is not under
  src/. A source with an addressable path is sent by its path. A source with none gets a
  handle from the registry, keyed by the identity of the source.
\<close>

definition SourceToClientConverter_toSource ::
  "ILoadedSource \<Rightarrow> string HandlesRegistry \<Rightarrow> ('err + Source) \<times> string HandlesRegistry" where
  "SourceToClientConverter_toSource s reg =
     (case filePath s of
        Some p \<Rightarrow> (Inr \<lparr>name = identity s, path = Some p, sourceReference = None\<rparr>, reg)
      | None \<Rightarrow>
          (case register (identity s) reg of
             (h, reg') \<Rightarrow>
               (Inr \<lparr>name = identity s, path = None, sourceReference = Some h\<rparr>, reg')))"

section \<open>Throwing, rejecting and completing\<close>

text \<open>
  The reporter above records that a call failed, not how. Here the two ways are kept
  apart. A call of a converter throws, or returns a promise that is rejected, or gives its
  result (it returns it, or returns a promise fulfilled with it). An operation ends for its
  caller by a throw, by the rejection of the promise it returned, or by completing.
\<close>

datatype ('err, 'a) called = Throws 'err | Rejects 'err | Gives 'a

datatype 'err ending = Thrown 'err | Rejected 'err | Completed

text \<open>
  The collaborators with the way each call ends. For the location converter \<open>Gives\<close> is
  a call that has attached the location when it returns.
\<close>

record ('loc, 'src, 'bps, 'frame, 'reg, 'err, 'cbp) Callees =
  printer :: "'frame list \<Rightarrow> string"
  locationCall :: "'loc \<Rightarrow> 'reg \<Rightarrow> ('err, ClientLocationInSource) called \<times> 'reg"
  sourceCall :: "'src \<Rightarrow> 'reg \<Rightarrow> ('err, Source) called \<times> 'reg"
  breakpointCall :: "'bps \<Rightarrow> 'reg \<Rightarrow> ('err, 'cbp) called \<times> 'reg"

text \<open>
  Modelled from the spec: \<open>toLocationInSource\<close> of
  \<open>locationInSourceToClientConverter.ts\<close>, which is not under src/, with the way its call
  ends. A location that cannot be resolved leaves the body as it was.
\<close>

definition toLocationInSourceCall ::
  "('loc, 'src, 'bps, 'frame, 'reg, 'err, 'cbp) Callees \<Rightarrow>
   'loc \<Rightarrow> body \<Rightarrow> 'reg \<Rightarrow> ('err, body) called \<times> 'reg" where
  "toLocationInSourceCall C l b reg =
     (case locationCall C l reg of
        (Throws e, reg') \<Rightarrow> (Throws e, reg')
      | (Rejects e, reg') \<Rightarrow> (Rejects e, reg')
      | (Gives c, reg') \<Rightarrow>
          (Gives (b(''source'' \<mapsto> Src (ClientLocationInSource.source c),
                    ''line'' \<mapsto> Num (line c),
                    ''column'' \<mapsto> Num (column c))), reg'))"

text \<open>
  \<open>sendOutput\<close> (lines 78 to 90) is not an async function and line 86 has no \<open>await\<close>.
  When the call of line 86 throws, \<open>sendOutput\<close> throws and line 89 is not reached. When
  it returns, whatever it returns is dropped and line 89 sends the event: a promise that is
  rejected is not looked at.
\<close>

definition sendOutputCall ::
  "('loc, 'src, 'bps, 'frame, 'reg, 'err, 'cbp) Callees \<Rightarrow>
   'loc IOutputParameters \<Rightarrow> ('cbp, 'exc, 'reg) world \<Rightarrow>
   'err ending \<times> ('cbp, 'exc, 'reg) world" where
  "sendOutputCall C params w =
     (let event = OutputEvent (outputText params) (IOutputParameters.category params);
          event = (case variablesReference params of
                     None \<Rightarrow> event
                   | Some v \<Rightarrow> if v \<noteq> 0 then event(''variablesReference'' \<mapsto> Num v) else event)
      in case IOutputParameters.location params of
           None \<Rightarrow> (Completed, sendEvent (Output event) w)
         | Some l \<Rightarrow>
             (case toLocationInSourceCall C l event (handles w) of
                (Throws e, reg') \<Rightarrow> (Thrown e, w\<lparr>handles := reg'\<rparr>)
              | (Rejects e, reg') \<Rightarrow>
                  (Completed, sendEvent (Output event) (w\<lparr>handles := reg'\<rparr>))
              | (Gives event', reg') \<Rightarrow>
                  (Completed, sendEvent (Output event') (w\<lparr>handles := reg'\<rparr>))))"

text \<open>
  \<open>sendSourceWasLoaded\<close> (lines 92 to 97) and \<open>sendBPStatusChanged\<close> (lines 99 to 104) are
  async functions that await the conversion: a converter that throws and one whose promise
  is rejected both reject the promise of the operation, before the event is built.
\<close>

definition sendSourceWasLoadedCall ::
  "('loc, 'src, 'bps, 'frame, 'reg, 'err, 'cbp) Callees \<Rightarrow>
   'src ISourceWasLoadedParameters \<Rightarrow> ('cbp, 'exc, 'reg) world \<Rightarrow>
   'err ending \<times> ('cbp, 'exc, 'reg) world" where
  "sendSourceWasLoadedCall C params w =
     (case sourceCall C (ISourceWasLoadedParameters.source params) (handles w) of
        (Throws e, reg') \<Rightarrow> (Rejected e, w\<lparr>handles := reg'\<rparr>)
      | (Rejects e, reg') \<Rightarrow> (Rejected e, w\<lparr>handles := reg'\<rparr>)
      | (Gives clientSource, reg') \<Rightarrow>
          (Completed, sendEvent (LoadedSourceEvent (ISourceWasLoadedParameters.reason params)
                                   clientSource) (w\<lparr>handles := reg'\<rparr>)))"

definition sendBPStatusChangedCall ::
  "('loc, 'src, 'bps, 'frame, 'reg, 'err, 'cbp) Callees \<Rightarrow>
   'bps IBPStatusChangedParameters \<Rightarrow> ('cbp, 'exc, 'reg) world \<Rightarrow>
   'err ending \<times> ('cbp, 'exc, 'reg) world" where
  "sendBPStatusChangedCall C params w =
     (case breakpointCall C (bpRecipeStatus params) (handles w) of
        (Throws e, reg') \<Rightarrow> (Rejected e, w\<lparr>handles := reg'\<rparr>)
      | (Rejects e, reg') \<Rightarrow> (Rejected e, w\<lparr>handles := reg'\<rparr>)
      | (Gives breakpointStatus, reg') \<Rightarrow>
          (Completed, sendEvent (BreakpointEvent (IBPStatusChangedParameters.reason params)
                                   breakpointStatus) (w\<lparr>handles := reg'\<rparr>)))"

text \<open>
  \<open>sendExceptionThrown\<close> (lines 106 to 112) is an async function that returns what
  \<open>sendOutput\<close> returns: a throw of \<open>sendOutput\<close> rejects its promise.
\<close>

definition sendExceptionThrownCall ::
  "('loc, 'src, 'bps, 'frame, 'reg, 'err, 'cbp) Callees \<Rightarrow>
   ('frame, 'loc) IExceptionThrownParameters \<Rightarrow> ('cbp, 'exc, 'reg) world \<Rightarrow>
   'err ending \<times> ('cbp, 'exc, 'reg) world" where
  "sendExceptionThrownCall C params w =
     (case sendOutputCall C
             \<lparr>outputText = printer C (exceptionStackTrace params),
              IOutputParameters.category = IExceptionThrownParameters.category params,
              variablesReference = None,
              IOutputParameters.location = IExceptionThrownParameters.location params\<rparr> w of
        (Thrown e, w') \<Rightarrow> (Rejected e, w')
      | (Rejected e, w') \<Rightarrow> (Rejected e, w')
      | (Completed, w') \<Rightarrow> (Completed, w'))"

text \<open>
  The reporter above as callees: its location converter throws when it fails, as the
  synchronous converter of the specification does.
\<close>

definition callees ::
  "('loc, 'src, 'bps, 'frame, 'reg, 'err, 'cbp) EventsToClientReporter \<Rightarrow>
   ('loc, 'src, 'bps, 'frame, 'reg, 'err, 'cbp) Callees" where
  "callees R =
     \<lparr>printer = toStackTraceString R,
      locationCall = (\<lambda>l reg.
        case toClientLocation R l reg of
          (Inl e, reg') \<Rightarrow> (Throws e, reg')
        | (Inr c, reg') \<Rightarrow> (Gives c, reg')),
      sourceCall = (\<lambda>s reg.
        case toSource R s reg of
          (Inl e, reg') \<Rightarrow> (Rejects e, reg')
        | (Inr c, reg') \<Rightarrow> (Gives c, reg')),
      breakpointCall = (\<lambda>s reg.
        case toBreakpoint R s reg of
          (Inl e, reg') \<Rightarrow> (Rejects e, reg')
        | (Inr c, reg') \<Rightarrow> (Gives c, reg'))\<rparr>"

section \<open>Requests and events as objects in a store\<close>

text \<open>
  A call receives a reference to its request, and the event it builds is an object that is
  written to after it is built. Here every object, a request as much as an event or its
  body, is a record of fields in a store, a list of objects addressed by position, and an
  assignment writes to whatever object it is aimed at. The value of a field is a string, a
  number or a client source, a reference to an object of the store, or one of the values
  that the reporter passes on without looking into them: a reason, an internal location,
  source, breakpoint status or stack trace, a runtime value, a client breakpoint.
\<close>

datatype ('loc, 'src, 'bps, 'frame, 'cbp, 'exc) val =
    Prim jsvalue
  | Ref nat
  | ReasonVal LoadedSourceReason
  | LocationVal 'loc
  | SourceVal 'src
  | StatusVal 'bps
  | FramesVal "'frame list"
  | RemoteVal 'exc
  | BreakpointVal 'cbp

type_synonym ('loc, 'src, 'bps, 'frame, 'cbp, 'exc) object =
  "string \<rightharpoonup> ('loc, 'src, 'bps, 'frame, 'cbp, 'exc) val"

type_synonym ('loc, 'src, 'bps, 'frame, 'cbp, 'exc) store =
  "('loc, 'src, 'bps, 'frame, 'cbp, 'exc) object list"

text \<open>
  The state of a call on the store: the store, the addresses of the events the session has
  been handed, and the handle registry.
\<close>

record ('loc, 'src, 'bps, 'frame, 'cbp, 'exc, 'reg) heapWorld =
  store :: "('loc, 'src, 'bps, 'frame, 'cbp, 'exc) store"
  delivered :: "nat list"
  registry :: 'reg

text \<open>
  A call fails with the error of a converter. \<open>NoSuchRequest\<close> is the result when the
  object at the address given does not have the fields of a request of the expected shape,
  which the types of the program exclude.
\<close>

datatype 'err failure = Failed 'err | NoSuchRequest

text \<open>
  Reading an address, creating an object (\<open>new\<close>, an object literal) and assigning to a
  field of the object at an address, whatever that object is.
\<close>

definition objectAt ::
  "('loc, 'src, 'bps, 'frame, 'cbp, 'exc) store \<Rightarrow> nat \<Rightarrow>
   ('loc, 'src, 'bps, 'frame, 'cbp, 'exc) object option" where
  "objectAt st a = (if a < length st then Some (st ! a) else None)"

definition new ::
  "('loc, 'src, 'bps, 'frame, 'cbp, 'exc) object \<Rightarrow>
   ('loc, 'src, 'bps, 'frame, 'cbp, 'exc) store \<Rightarrow>
   nat \<times> ('loc, 'src, 'bps, 'frame, 'cbp, 'exc) store" where
  "new ob st = (length st, st @ [ob])"

definition assignField ::
  "nat \<Rightarrow> string \<Rightarrow> ('loc, 'src, 'bps, 'frame, 'cbp, 'exc) val \<Rightarrow>
   ('loc, 'src, 'bps, 'frame, 'cbp, 'exc) store \<Rightarrow>
   ('loc, 'src, 'bps, 'frame, 'cbp, 'exc) store" where
  "assignField a f v st = (if a < length st then st[a := (st ! a)(f \<mapsto> v)] else st)"

text \<open>
  Reading the fields of a request. An optional field is absent or has a value of its type.
\<close>

definition readOutputParameters ::
  "('loc, 'src, 'bps, 'frame, 'cbp, 'exc) object \<Rightarrow> 'loc IOutputParameters option" where
  "readOutputParameters ob =
     (case (ob ''output'', ob ''category'') of
        (Some (Prim (Str t)), Some (Prim (Str c))) \<Rightarrow>
          (case (case ob ''variablesReference'' of
                   None \<Rightarrow> Some None
                 | Some (Prim (Num v)) \<Rightarrow> Some (Some v)
                 | _ \<Rightarrow> None) of
             None \<Rightarrow> None
           | Some r \<Rightarrow>
               (case (case ob ''location'' of
                        None \<Rightarrow> Some None
                      | Some (LocationVal l) \<Rightarrow> Some (Some l)
                      | _ \<Rightarrow> None) of
                  None \<Rightarrow> None
                | Some l \<Rightarrow>
                    Some \<lparr>outputText = t, IOutputParameters.category = c,
                          variablesReference = r, IOutputParameters.location = l\<rparr>))
      | _ \<Rightarrow> None)"

definition readSourceWasLoadedParameters ::
  "('loc, 'src, 'bps, 'frame, 'cbp, 'exc) object \<Rightarrow> 'src ISourceWasLoadedParameters option" where
  "readSourceWasLoadedParameters ob =
     (case (ob ''reason'', ob ''source'') of
        (Some (ReasonVal r), Some (SourceVal s)) \<Rightarrow>
          Some \<lparr>ISourceWasLoadedParameters.reason = r, ISourceWasLoadedParameters.source = s\<rparr>
      | _ \<Rightarrow> None)"

definition readBPStatusChangedParameters ::
  "('loc, 'src, 'bps, 'frame, 'cbp, 'exc) object \<Rightarrow> 'bps IBPStatusChangedParameters option" where
  "readBPStatusChangedParameters ob =
     (case (ob ''reason'', ob ''bpRecipeStatus'') of
        (Some (Prim (Str r)), Some (StatusVal s)) \<Rightarrow>
          Some \<lparr>IBPStatusChangedParameters.reason = r, bpRecipeStatus = s\<rparr>
      | _ \<Rightarrow> None)"

definition readExceptionThrownParameters ::
  "('loc, 'src, 'bps, 'frame, 'cbp, 'exc) object \<Rightarrow>
   ('frame, 'loc) IExceptionThrownParameters option" where
  "readExceptionThrownParameters ob =
     (case (ob ''exceptionStackTrace'', ob ''category'') of
        (Some (FramesVal t), Some (Prim (Str c))) \<Rightarrow>
          (case (case ob ''location'' of
                   None \<Rightarrow> Some None
                 | Some (LocationVal l) \<Rightarrow> Some (Some l)
                 | _ \<Rightarrow> None) of
             None \<Rightarrow> None
           | Some l \<Rightarrow>
               Some \<lparr>exceptionStackTrace = t, IExceptionThrownParameters.category = c,
                     IExceptionThrownParameters.location = l\<rparr>)
      | _ \<Rightarrow> None)"

definition readDebuggeeIsStoppedParameters ::
  "('loc, 'src, 'bps, 'frame, 'cbp, 'exc) object \<Rightarrow> 'exc IDebuggeeIsStoppedParameters option" where
  "readDebuggeeIsStoppedParameters ob =
     (case ob ''reason'' of
        Some (Prim (Str r)) \<Rightarrow>
          (case ob ''exception'' of
             None \<Rightarrow> Some \<lparr>IDebuggeeIsStoppedParameters.reason = r, exception = None\<rparr>
           | Some (RemoteVal x) \<Rightarrow>
               Some \<lparr>IDebuggeeIsStoppedParameters.reason = r, exception = Some x\<rparr>
           | _ \<Rightarrow> None)
      | _ \<Rightarrow> None)"

definition requestAt ::
  "(('loc, 'src, 'bps, 'frame, 'cbp, 'exc) object \<Rightarrow> 'req option) \<Rightarrow>
   ('loc, 'src, 'bps, 'frame, 'cbp, 'exc) store \<Rightarrow> nat \<Rightarrow> 'req option" where
  "requestAt reader st a = (case objectAt st a of None \<Rightarrow> None | Some ob \<Rightarrow> reader ob)"

text \<open>
  The objects the constructors build. An output event refers to its body, an object of
  its own; the other events hold the arguments they were built from.
\<close>

definition bodyObject :: "body \<Rightarrow> ('loc, 'src, 'bps, 'frame, 'cbp, 'exc) object" where
  "bodyObject b = (\<lambda>f. map_option Prim (b f))"

definition outputEventObject :: "nat \<Rightarrow> ('loc, 'src, 'bps, 'frame, 'cbp, 'exc) object" where
  "outputEventObject b = [''event'' \<mapsto> Prim (Str ''output''), ''body'' \<mapsto> Ref b]"

definition loadedSourceEventObject ::
  "LoadedSourceReason \<Rightarrow> Source \<Rightarrow> ('loc, 'src, 'bps, 'frame, 'cbp, 'exc) object" where
  "loadedSourceEventObject r c =
     [''event'' \<mapsto> Prim (Str ''loadedSource''), ''reason'' \<mapsto> ReasonVal r,
      ''source'' \<mapsto> Prim (Src c)]"

definition breakpointEventObject ::
  "string \<Rightarrow> 'cbp \<Rightarrow> ('loc, 'src, 'bps, 'frame, 'cbp, 'exc) object" where
  "breakpointEventObject r bp =
     [''event'' \<mapsto> Prim (Str ''breakpoint''), ''reason'' \<mapsto> Prim (Str r),
      ''breakpoint'' \<mapsto> BreakpointVal bp]"

definition stoppedEventObject ::
  "string \<Rightarrow> int \<Rightarrow> 'exc option \<Rightarrow> ('loc, 'src, 'bps, 'frame, 'cbp, 'exc) object" where
  "stoppedEventObject r t x =
     (case x of
        None \<Rightarrow>
          [''event'' \<mapsto> Prim (Str ''stopped''), ''reason'' \<mapsto> Prim (Str r),
           ''threadId'' \<mapsto> Prim (Num t)]
      | Some v \<Rightarrow>
          [''event'' \<mapsto> Prim (Str ''stopped''), ''reason'' \<mapsto> Prim (Str r),
           ''threadId'' \<mapsto> Prim (Num t), ''exception'' \<mapsto> RemoteVal v])"

text \<open>
  Modelled from the spec: \<open>toLocationInSource\<close> of
  \<open>locationInSourceToClientConverter.ts\<close>, which is not under src/, on the store: it
  resolves the location and assigns the source, the line and the column to the object it
  is given to update.
\<close>

definition toLocationInSourceAt ::
  "('loc, 'src, 'bps, 'frame, 'reg, 'err, 'cbp) EventsToClientReporter \<Rightarrow>
   'loc \<Rightarrow> nat \<Rightarrow> ('loc, 'src, 'bps, 'frame, 'cbp, 'exc) store \<Rightarrow> 'reg \<Rightarrow>
   ('err + unit) \<times> ('loc, 'src, 'bps, 'frame, 'cbp, 'exc) store \<times> 'reg" where
  "toLocationInSourceAt R l objectToUpdate st reg =
     (case toClientLocation R l reg of
        (Inl e, reg') \<Rightarrow> (Inl e, st, reg')
      | (Inr c, reg') \<Rightarrow>
          (Inr (),
           assignField objectToUpdate ''column'' (Prim (Num (column c)))
             (assignField objectToUpdate ''line'' (Prim (Num (line c)))
               (assignField objectToUpdate ''source''
                  (Prim (Src (ClientLocationInSource.source c))) st)),
           reg'))"

text \<open>
  The five operations on the store. Each reads its request at the address \<open>params\<close>; the
  converters are those of the reporter above, and are given the entity the request holds and
  the registry. In \<open>sendOutputAt\<close> the assignment of line 82 is aimed at the body created
  at line 79, and that body is the object that line 86 hands to the location converter to
  update. In \<open>sendExceptionThrownAt\<close> the object literal of lines 107 to 111 is a new
  object, whose address is handed to \<open>sendOutputAt\<close>.
\<close>

definition sendEventAt ::
  "nat \<Rightarrow> ('loc, 'src, 'bps, 'frame, 'cbp, 'exc, 'reg) heapWorld \<Rightarrow>
   ('loc, 'src, 'bps, 'frame, 'cbp, 'exc, 'reg) heapWorld" where
  "sendEventAt event w = w\<lparr>delivered := delivered w @ [event]\<rparr>"

definition sendOutputAt ::
  "('loc, 'src, 'bps, 'frame, 'reg, 'err, 'cbp) EventsToClientReporter \<Rightarrow> nat \<Rightarrow>
   ('loc, 'src, 'bps, 'frame, 'cbp, 'exc, 'reg) heapWorld \<Rightarrow>
   ('err failure + unit) \<times> ('loc, 'src, 'bps, 'frame, 'cbp, 'exc, 'reg) heapWorld" where
  "sendOutputAt R params w =
     (case requestAt readOutputParameters (store w) params of
        None \<Rightarrow> (Inl NoSuchRequest, w)
      | Some p \<Rightarrow>
          (case new (bodyObject (OutputEvent (outputText p) (IOutputParameters.category p)))
                    (store w) of
             (body, st1) \<Rightarrow>
          (case new (outputEventObject body) st1 of
             (event, st2) \<Rightarrow>
          (let st3 = (case variablesReference p of
                        None \<Rightarrow> st2
                      | Some v \<Rightarrow>
                          if v \<noteq> 0
                          then assignField body ''variablesReference'' (Prim (Num v)) st2
                          else st2)
           in case IOutputParameters.location p of
                None \<Rightarrow> (Inr (), sendEventAt event (w\<lparr>store := st3\<rparr>))
              | Some l \<Rightarrow>
                  (case toLocationInSourceAt R l body st3 (registry w) of
                     (Inl e, st4, reg') \<Rightarrow> (Inl (Failed e), w\<lparr>store := st4, registry := reg'\<rparr>)
                   | (Inr u, st4, reg') \<Rightarrow>
                       (Inr (), sendEventAt event (w\<lparr>store := st4, registry := reg'\<rparr>)))))))"

definition sendSourceWasLoadedAt ::
  "('loc, 'src, 'bps, 'frame, 'reg, 'err, 'cbp) EventsToClientReporter \<Rightarrow> nat \<Rightarrow>
   ('loc, 'src, 'bps, 'frame, 'cbp, 'exc, 'reg) heapWorld \<Rightarrow>
   ('err failure + unit) \<times> ('loc, 'src, 'bps, 'frame, 'cbp, 'exc, 'reg) heapWorld" where
  "sendSourceWasLoadedAt R params w =
     (case requestAt readSourceWasLoadedParameters (store w) params of
        None \<Rightarrow> (Inl NoSuchRequest, w)
      | Some p \<Rightarrow>
          (case toSource R (ISourceWasLoadedParameters.source p) (registry w) of
             (Inl e, reg') \<Rightarrow> (Inl (Failed e), w\<lparr>registry := reg'\<rparr>)
           | (Inr clientSource, reg') \<Rightarrow>
               (case new (loadedSourceEventObject (ISourceWasLoadedParameters.reason p)
                            clientSource) (store w) of
                  (event, st1) \<Rightarrow>
                    (Inr (), sendEventAt event (w\<lparr>store := st1, registry := reg'\<rparr>)))))"

definition sendBPStatusChangedAt ::
  "('loc, 'src, 'bps, 'frame, 'reg, 'err, 'cbp) EventsToClientReporter \<Rightarrow> nat \<Rightarrow>
   ('loc, 'src, 'bps, 'frame, 'cbp, 'exc, 'reg) heapWorld \<Rightarrow>
   ('err failure + unit) \<times> ('loc, 'src, 'bps, 'frame, 'cbp, 'exc, 'reg) heapWorld" where
  "sendBPStatusChangedAt R params w =
     (case requestAt readBPStatusChangedParameters (store w) params of
        None \<Rightarrow> (Inl NoSuchRequest, w)
      | Some p \<Rightarrow>
          (case toBreakpoint R (bpRecipeStatus p) (registry w) of
             (Inl e, reg') \<Rightarrow> (Inl (Failed e), w\<lparr>registry := reg'\<rparr>)
           | (Inr breakpointStatus, reg') \<Rightarrow>
               (case new (breakpointEventObject (IBPStatusChangedParameters.reason p)
                            breakpointStatus) (store w) of
                  (event, st1) \<Rightarrow>
                    (Inr (), sendEventAt event (w\<lparr>store := st1, registry := reg'\<rparr>)))))"

definition sendExceptionThrownAt ::
  "('loc, 'src, 'bps, 'frame, 'reg, 'err, 'cbp) EventsToClientReporter \<Rightarrow> nat \<Rightarrow>
   ('loc, 'src, 'bps, 'frame, 'cbp, 'exc, 'reg) heapWorld \<Rightarrow>
   ('err failure + unit) \<times> ('loc, 'src, 'bps, 'frame, 'cbp, 'exc, 'reg) heapWorld" where
  "sendExceptionThrownAt R params w =
     (case requestAt readExceptionThrownParameters (store w) params of
        None \<Rightarrow> (Inl NoSuchRequest, w)
      | Some p \<Rightarrow>
          (case new (case IExceptionThrownParameters.location p of
                       None \<Rightarrow>
                         [''output'' \<mapsto> Prim (Str (toStackTraceString R (exceptionStackTrace p))),
                          ''category'' \<mapsto> Prim (Str (IExceptionThrownParameters.category p))]
                     | Some l \<Rightarrow>
                         [''output'' \<mapsto> Prim (Str (toStackTraceString R (exceptionStackTrace p))),
                          ''category'' \<mapsto> Prim (Str (IExceptionThrownParameters.category p)),
                          ''location'' \<mapsto> LocationVal l])
                    (store w) of
             (literal, st1) \<Rightarrow> sendOutputAt R literal (w\<lparr>store := st1\<rparr>)))"

definition sendDebuggeeIsStoppedAt ::
  "('loc, 'src, 'bps, 'frame, 'reg, 'err, 'cbp) EventsToClientReporter \<Rightarrow> nat \<Rightarrow>
   ('loc, 'src, 'bps, 'frame, 'cbp, 'exc, 'reg) heapWorld \<Rightarrow>
   ('err failure + unit) \<times> ('loc, 'src, 'bps, 'frame, 'cbp, 'exc, 'reg) heapWorld" where
  "sendDebuggeeIsStoppedAt R params w =
     (case requestAt readDebuggeeIsStoppedParameters (store w) params of
        None \<Rightarrow> (Inl NoSuchRequest, w)
      | Some p \<Rightarrow>
          (case new (stoppedEventObject (IDebuggeeIsStoppedParameters.reason p)
                       (THREAD_ID R) (exception p)) (store w) of
             (event, st1) \<Rightarrow> (Inr (), sendEventAt event (w\<lparr>store := st1\<rparr>))))"

text \<open>
  The event an address stands for, with the body of an output event read from the store,
  and the events a call has handed to the session, read from the store it leaves.
\<close>

definition lowerBody :: "('loc, 'src, 'bps, 'frame, 'cbp, 'exc) object \<Rightarrow> body" where
  "lowerBody ob = (\<lambda>f. case ob f of Some (Prim v) \<Rightarrow> Some v | _ \<Rightarrow> None)"

definition eventAt ::
  "('loc, 'src, 'bps, 'frame, 'cbp, 'exc) store \<Rightarrow> nat \<Rightarrow> ('cbp, 'exc) event option" where
  "eventAt st a =
     (case objectAt st a of
        None \<Rightarrow> None
      | Some ob \<Rightarrow>
          (case ob ''event'' of
             Some (Prim (Str k)) \<Rightarrow>
               if k = ''output''
               then (case ob ''body'' of
                       Some (Ref b) \<Rightarrow>
                         (case objectAt st b of
                            None \<Rightarrow> None
                          | Some bo \<Rightarrow> Some (Output (lowerBody bo)))
                     | _ \<Rightarrow> None)
               else if k = ''loadedSource''
               then (case (ob ''reason'', ob ''source'') of
                       (Some (ReasonVal r), Some (Prim (Src c))) \<Rightarrow> Some (LoadedSource r c)
                     | _ \<Rightarrow> None)
               else if k = ''breakpoint''
               then (case (ob ''reason'', ob ''breakpoint'') of
                       (Some (Prim (Str r)), Some (BreakpointVal bp)) \<Rightarrow> Some (Breakpoint r bp)
                     | _ \<Rightarrow> None)
               else if k = ''stopped''
               then (case (ob ''reason'', ob ''threadId'') of
                       (Some (Prim (Str r)), Some (Prim (Num t))) \<Rightarrow>
                         (case ob ''exception'' of
                            None \<Rightarrow> Some (Stopped r t None)
                          | Some (RemoteVal x) \<Rightarrow> Some (Stopped r t (Some x))
                          | _ \<Rightarrow> None)
                     | _ \<Rightarrow> None)
               else None
           | _ \<Rightarrow> None))"

definition newEvents ::
  "('loc, 'src, 'bps, 'frame, 'cbp, 'exc, 'reg) heapWorld \<Rightarrow>
   ('loc, 'src, 'bps, 'frame, 'cbp, 'exc, 'reg) heapWorld \<Rightarrow> ('cbp, 'exc) event option list" where
  "newEvents w w' = map (eventAt (store w')) (drop (length (delivered w)) (delivered w'))"

section \<open>Canned collaborators\<close>

text \<open>
  A reporter with deterministic collaborators, on which the theorems below are evaluated.
  A location is a line number; a breakpoint status is its verified flag and its resolved
  line; a stack frame is its text. With \<open>ok\<close> false every converter fails.
\<close>

record BPRecipeStatus =
  verified :: bool
  resolvedLine :: int

definition cannedReporter ::
  "bool \<Rightarrow> (int, ILoadedSource, BPRecipeStatus, string, string HandlesRegistry, string,
            bool \<times> int) EventsToClientReporter" where
  "cannedReporter ok =
     \<lparr>toStackTraceString = concat,
      toClientLocation = (\<lambda>l reg.
        if ok then (Inr \<lparr>ClientLocationInSource.source =
                            \<lparr>name = ''a.js'', path = Some ''/a.js'', sourceReference = None\<rparr>,
                          line = l, column = 1\<rparr>, reg)
        else (Inl ''cannot resolve the source'', reg)),
      toSource = (\<lambda>s reg.
        if ok then SourceToClientConverter_toSource s reg
        else (Inl ''unknown source kind'', reg)),
      toBreakpoint = (\<lambda>s reg.
        if ok then (Inr (verified s, resolvedLine s), reg)
        else (Inl ''cannot convert the status'', reg)),
      THREAD_ID = 1\<rparr>"

definition emptyWorld :: "(bool \<times> int, string, string HandlesRegistry) world" where
  "emptyWorld = \<lparr>sent = [], handles = \<lparr>nextHandle = 1000, issued = []\<rparr>\<rparr>"

text \<open>One request of each shape, and an output request with no optional field.\<close>

definition outputRequest :: "int IOutputParameters" where
  "outputRequest =
     \<lparr>outputText = ''hello'', IOutputParameters.category = ''stdout'',
      variablesReference = Some 7, IOutputParameters.location = Some 3\<rparr>"

definition plainOutputRequest :: "int IOutputParameters" where
  "plainOutputRequest =
     \<lparr>outputText = ''hello'', IOutputParameters.category = ''stdout'',
      variablesReference = None, IOutputParameters.location = None\<rparr>"

definition sourceRequest :: "ILoadedSource ISourceWasLoadedParameters" where
  "sourceRequest =
     \<lparr>ISourceWasLoadedParameters.reason = New,
      ISourceWasLoadedParameters.source = \<lparr>identity = ''VM42'', filePath = None\<rparr>\<rparr>"

definition bpRequest :: "BPRecipeStatus IBPStatusChangedParameters" where
  "bpRequest =
     \<lparr>IBPStatusChangedParameters.reason = ''changed'',
      bpRecipeStatus = \<lparr>verified = True, resolvedLine = 42\<rparr>\<rparr>"

definition exceptionRequest :: "(string, int) IExceptionThrownParameters" where
  "exceptionRequest =
     \<lparr>exceptionStackTrace = [''at foo (a.js:1:1)''],
      IExceptionThrownParameters.category = ''stderr'',
      IExceptionThrownParameters.location = Some 1\<rparr>"

definition stoppedRequest :: "string IDebuggeeIsStoppedParameters" where
  "stoppedRequest =
     \<lparr>IDebuggeeIsStoppedParameters.reason = ''exception'', exception = Some ''Error''\<rparr>"

text \<open>
  Callees whose every conversion fails: by a rejected promise when \<open>rejecting\<close> is true,
  by a throw when it is false.
\<close>

definition failingCallees ::
  "bool \<Rightarrow> (int, ILoadedSource, BPRecipeStatus, string, string HandlesRegistry, string,
            bool \<times> int) Callees" where
  "failingCallees rejecting =
     \<lparr>printer = concat,
      locationCall = (\<lambda>l reg.
        (if rejecting then Rejects ''cannot resolve the source''
         else Throws ''cannot resolve the source'', reg)),
      sourceCall = (\<lambda>s reg.
        (if rejecting then Rejects ''unknown source kind''
         else Throws ''unknown source kind'', reg)),
      breakpointCall = (\<lambda>s reg.
        (if rejecting then Rejects ''cannot convert the status''
         else Throws ''cannot convert the status'', reg))\<rparr>"

text \<open>A store that holds the five requests, with nothing sent yet.\<close>

definition storeWorld ::
  "(int, ILoadedSource, BPRecipeStatus, string, bool \<times> int, string, string HandlesRegistry)
     heapWorld" where
  "storeWorld =
     \<lparr>store =
        [[''output'' \<mapsto> Prim (Str ''hello''), ''category'' \<mapsto> Prim (Str ''stdout''),
          ''variablesReference'' \<mapsto> Prim (Num 7), ''location'' \<mapsto> LocationVal 3],
         [''reason'' \<mapsto> ReasonVal New,
          ''source'' \<mapsto> SourceVal \<lparr>identity = ''VM42'', filePath = None\<rparr>],
         [''reason'' \<mapsto> Prim (Str ''changed''),
          ''bpRecipeStatus'' \<mapsto> StatusVal \<lparr>verified = True, resolvedLine = 42\<rparr>],
         [''exceptionStackTrace'' \<mapsto> FramesVal [''at foo (a.js:1:1)''],
          ''category'' \<mapsto> Prim (Str ''stderr''), ''location'' \<mapsto> LocationVal 1],
         [''reason'' \<mapsto> Prim (Str ''exception''), ''exception'' \<mapsto> RemoteVal ''Error'']],
      delivered = [],
      registry = \<lparr>nextHandle = 1000, issued = []\<rparr>\<rparr>"

section \<open>What one call does\<close>

lemma sendOutput_ok:
  assumes "sendOutput R p w = (Inr u, w')"
  shows "\<exists>b. sent w' = sent w @ [Output b]
     \<and> dom b = {''category'', ''output''}
          \<union> (case variablesReference p of None \<Rightarrow> {} | Some v \<Rightarrow> if v \<noteq> 0 then {''variablesReference''} else {})
          \<union> (case IOutputParameters.location p of None \<Rightarrow> {} | Some l \<Rightarrow> {''source'', ''line'', ''column''})
     \<and> b ''output'' = Some (Str (outputText p))
     \<and> b ''category'' = Some (Str (IOutputParameters.category p))
     \<and> b ''variablesReference'' = (case variablesReference p of None \<Rightarrow> None | Some v \<Rightarrow> if v \<noteq> 0 then Some (Num v) else None)"
  using assms
  by (auto simp: sendOutput_def sendEvent_def OutputEvent_def toLocationInSource_def Let_def split: option.splits sum.splits prod.splits if_splits)

lemma sendOutput_fail:
  assumes "sendOutput R p w = (Inl e, w')"
  shows "sent w' = sent w \<and> (\<exists>l. IOutputParameters.location p = Some l \<and> toClientLocation R l (handles w) = (Inl e, handles w'))"
  using assms
  by (auto simp: sendOutput_def sendEvent_def OutputEvent_def toLocationInSource_def Let_def split: option.splits sum.splits prod.splits if_splits)

lemma sendOutput_no_location:
  "IOutputParameters.location p = None \<Longrightarrow>
   fst (sendOutput R p w) = Inr () \<and> handles (snd (sendOutput R p w)) = handles w \<and>
   (\<exists>b. sent (snd (sendOutput R p w)) = sent w @ [Output b])"
  by (simp add: sendOutput_def sendEvent_def Let_def)

lemma sendOutput_location_ok:
  "IOutputParameters.location p = Some l \<Longrightarrow> toClientLocation R l (handles w) = (Inr c, reg') \<Longrightarrow>
   fst (sendOutput R p w) = Inr () \<and> handles (snd (sendOutput R p w)) = reg' \<and>
   (\<exists>b. sent (snd (sendOutput R p w)) = sent w @ [Output b])"
  by (simp add: sendOutput_def sendEvent_def Let_def toLocationInSource_def)

lemma sendOutput_location_fail:
  "IOutputParameters.location p = Some l \<Longrightarrow> toClientLocation R l (handles w) = (Inl e, reg') \<Longrightarrow>
   sendOutput R p w = (Inl e, w\<lparr>handles := reg'\<rparr>)"
  by (simp add: sendOutput_def sendEvent_def Let_def toLocationInSource_def)

lemma sendSourceWasLoaded_ok:
  "toSource R (ISourceWasLoadedParameters.source p) (handles w) = (Inr c, reg') \<Longrightarrow>
   sendSourceWasLoaded R p w =
     (Inr (), \<lparr>sent = sent w @ [LoadedSource (ISourceWasLoadedParameters.reason p) c], handles = reg'\<rparr>)"
  by (simp add: sendSourceWasLoaded_def sendEvent_def LoadedSourceEvent_def)

lemma sendSourceWasLoaded_fail:
  "toSource R (ISourceWasLoadedParameters.source p) (handles w) = (Inl e, reg') \<Longrightarrow>
   sendSourceWasLoaded R p w = (Inl e, w\<lparr>handles := reg'\<rparr>)"
  by (simp add: sendSourceWasLoaded_def)

lemma sendBPStatusChanged_ok:
  "toBreakpoint R (bpRecipeStatus p) (handles w) = (Inr c, reg') \<Longrightarrow>
   sendBPStatusChanged R p w =
     (Inr (), \<lparr>sent = sent w @ [Breakpoint (IBPStatusChangedParameters.reason p) c], handles = reg'\<rparr>)"
  by (simp add: sendBPStatusChanged_def sendEvent_def BreakpointEvent_def)

lemma sendBPStatusChanged_fail:
  "toBreakpoint R (bpRecipeStatus p) (handles w) = (Inl e, reg') \<Longrightarrow>
   sendBPStatusChanged R p w = (Inl e, w\<lparr>handles := reg'\<rparr>)"
  by (simp add: sendBPStatusChanged_def)

lemma not_isl_fst:
  "\<not> isl (fst r) \<Longrightarrow> \<exists>c reg'. r = (Inr c, reg')"
  by (cases r, cases "fst r") auto

lemma sendOutput_once:
  assumes "\<forall>l. IOutputParameters.location p = Some l \<longrightarrow> \<not> isl (fst (toClientLocation R l (handles w)))"
  shows "fst (sendOutput R p w) = Inr () \<and> (\<exists>e. sent (snd (sendOutput R p w)) = sent w @ [e])"
proof (cases "IOutputParameters.location p")
  case None
  from sendOutput_no_location [OF this, of R w] show ?thesis by blast
next
  case (Some l)
  with assms obtain c reg' where "toClientLocation R l (handles w) = (Inr c, reg')"
    using not_isl_fst by blast
  from sendOutput_location_ok [OF Some this] show ?thesis by blast
qed

text \<open>
  Claim C1. Each of the five operations, taken by itself: when the converter that the
  request invokes succeeds, the operation succeeds and hands the session exactly one event,
  so the list of events sent grows by one element. An output or exception request with no
  location invokes no converter, and \<open>sendDebuggeeIsStopped\<close> never does: they send their
  one event whatever the converters would do.
\<close>

theorem each_operation_sends_exactly_once:
  "((\<forall>l. IOutputParameters.location po = Some l \<longrightarrow>
          \<not> isl (fst (toClientLocation R l (handles w)))) \<longrightarrow>
      fst (sendOutput R po w) = Inr ()
      \<and> (\<exists>e. sent (snd (sendOutput R po w)) = sent w @ [e]))
   \<and> (\<not> isl (fst (toSource R (ISourceWasLoadedParameters.source ps) (handles w))) \<longrightarrow>
      fst (sendSourceWasLoaded R ps w) = Inr ()
      \<and> (\<exists>e. sent (snd (sendSourceWasLoaded R ps w)) = sent w @ [e]))
   \<and> (\<not> isl (fst (toBreakpoint R (bpRecipeStatus pb) (handles w))) \<longrightarrow>
      fst (sendBPStatusChanged R pb w) = Inr ()
      \<and> (\<exists>e. sent (snd (sendBPStatusChanged R pb w)) = sent w @ [e]))
   \<and> ((\<forall>l. IExceptionThrownParameters.location pe = Some l \<longrightarrow>
          \<not> isl (fst (toClientLocation R l (handles w)))) \<longrightarrow>
      fst (sendExceptionThrown R pe w) = Inr ()
      \<and> (\<exists>e. sent (snd (sendExceptionThrown R pe w)) = sent w @ [e]))
   \<and> (fst (sendDebuggeeIsStopped R pd w) = Inr ()
      \<and> (\<exists>e. sent (snd (sendDebuggeeIsStopped R pd w)) = sent w @ [e]))"
proof (intro conjI impI)
  assume "\<forall>l. IOutputParameters.location po = Some l \<longrightarrow>
            \<not> isl (fst (toClientLocation R l (handles w)))"
  from sendOutput_once [OF this]
  show "fst (sendOutput R po w) = Inr ()"
    and "\<exists>e. sent (snd (sendOutput R po w)) = sent w @ [e]"
    by simp_all
next
  assume "\<not> isl (fst (toSource R (ISourceWasLoadedParameters.source ps) (handles w)))"
  then obtain c reg' where
    "toSource R (ISourceWasLoadedParameters.source ps) (handles w) = (Inr c, reg')"
    using not_isl_fst by blast
  then show "fst (sendSourceWasLoaded R ps w) = Inr ()"
    and "\<exists>e. sent (snd (sendSourceWasLoaded R ps w)) = sent w @ [e]"
    by (simp_all add: sendSourceWasLoaded_ok)
next
  assume "\<not> isl (fst (toBreakpoint R (bpRecipeStatus pb) (handles w)))"
  then obtain c reg' where "toBreakpoint R (bpRecipeStatus pb) (handles w) = (Inr c, reg')"
    using not_isl_fst by blast
  then show "fst (sendBPStatusChanged R pb w) = Inr ()"
    and "\<exists>e. sent (snd (sendBPStatusChanged R pb w)) = sent w @ [e]"
    by (simp_all add: sendBPStatusChanged_ok)
next
  assume a: "\<forall>l. IExceptionThrownParameters.location pe = Some l \<longrightarrow>
            \<not> isl (fst (toClientLocation R l (handles w)))"
  have "fst (sendExceptionThrown R pe w) = Inr ()
      \<and> (\<exists>e. sent (snd (sendExceptionThrown R pe w)) = sent w @ [e])"
    unfolding sendExceptionThrown_def using a by (intro sendOutput_once) simp
  then show "fst (sendExceptionThrown R pe w) = Inr ()"
    and "\<exists>e. sent (snd (sendExceptionThrown R pe w)) = sent w @ [e]"
    by simp_all
next
  show "fst (sendDebuggeeIsStopped R pd w) = Inr ()"
    and "\<exists>e. sent (snd (sendDebuggeeIsStopped R pd w)) = sent w @ [e]"
    by (simp_all add: sendDebuggeeIsStopped_def sendEvent_def)
qed

text \<open>The definitions a concrete evaluation unfolds.\<close>

lemmas canned_defs =
  cannedReporter_def emptyWorld_def outputRequest_def plainOutputRequest_def sourceRequest_def
  bpRequest_def exceptionRequest_def stoppedRequest_def SourceToClientConverter_toSource_def
  register_def

theorem each_operation_sends_exactly_once_witness:
  "IOutputParameters.location outputRequest = Some 3
   \<and> \<not> isl (fst (toClientLocation (cannedReporter True) 3 (handles emptyWorld)))
   \<and> (\<exists>e. sent (snd (sendOutput (cannedReporter True) outputRequest emptyWorld)) = [e])
   \<and> \<not> isl (fst (toSource (cannedReporter True)
                  (ISourceWasLoadedParameters.source sourceRequest) (handles emptyWorld)))
   \<and> (\<exists>e. sent (snd (sendSourceWasLoaded (cannedReporter True) sourceRequest emptyWorld)) = [e])
   \<and> \<not> isl (fst (toBreakpoint (cannedReporter True) (bpRecipeStatus bpRequest)
                  (handles emptyWorld)))
   \<and> (\<exists>e. sent (snd (sendBPStatusChanged (cannedReporter True) bpRequest emptyWorld)) = [e])
   \<and> IExceptionThrownParameters.location exceptionRequest = Some 1
   \<and> \<not> isl (fst (toClientLocation (cannedReporter True) 1 (handles emptyWorld)))
   \<and> (\<exists>e. sent (snd (sendExceptionThrown (cannedReporter True) exceptionRequest emptyWorld)) = [e])
   \<and> IOutputParameters.location plainOutputRequest = None
   \<and> (\<exists>e. sent (snd (sendOutput (cannedReporter False) plainOutputRequest emptyWorld)) = [e])
   \<and> (\<exists>e. sent (snd (sendDebuggeeIsStopped (cannedReporter False) stoppedRequest emptyWorld)) = [e])"
proof -
  have c: "IOutputParameters.location outputRequest = Some 3"
      "\<not> isl (fst (toClientLocation (cannedReporter True) 3 (handles emptyWorld)))"
      "IExceptionThrownParameters.location exceptionRequest = Some 1"
      "\<not> isl (fst (toClientLocation (cannedReporter True) 1 (handles emptyWorld)))"
      "IOutputParameters.location plainOutputRequest = None"
    by (simp_all add: canned_defs)
  have h1: "\<forall>l. IOutputParameters.location outputRequest = Some l \<longrightarrow>
        \<not> isl (fst (toClientLocation (cannedReporter True) l (handles emptyWorld)))"
    using c(1,2) by simp
  have h2: "\<not> isl (fst (toSource (cannedReporter True)
                  (ISourceWasLoadedParameters.source sourceRequest) (handles emptyWorld)))"
    by (simp add: canned_defs)
  have h3: "\<not> isl (fst (toBreakpoint (cannedReporter True) (bpRecipeStatus bpRequest)
                  (handles emptyWorld)))"
    by (simp add: canned_defs)
  have h4: "\<forall>l. IExceptionThrownParameters.location exceptionRequest = Some l \<longrightarrow>
        \<not> isl (fst (toClientLocation (cannedReporter True) l (handles emptyWorld)))"
    using c(3,4) by simp
  have h5: "\<forall>l. IOutputParameters.location plainOutputRequest = Some l \<longrightarrow>
        \<not> isl (fst (toClientLocation (cannedReporter False) l (handles emptyWorld)))"
    using c(5) by simp
  have e: "sent emptyWorld = []" by (simp add: emptyWorld_def)
  note t = each_operation_sends_exactly_once
    [where R = "cannedReporter True" and w = emptyWorld and po = outputRequest
       and ps = sourceRequest and pb = bpRequest and pe = exceptionRequest
       and pd = stoppedRequest, unfolded e, simplified]
  note f = each_operation_sends_exactly_once
    [where R = "cannedReporter False" and w = emptyWorld and po = plainOutputRequest
       and ps = sourceRequest and pb = bpRequest and pe = exceptionRequest
       and pd = stoppedRequest, unfolded e, simplified]
  from t h1 have 1:
    "\<exists>e. sent (snd (sendOutput (cannedReporter True) outputRequest emptyWorld)) = [e]"
    by simp
  from t h2 have 2:
    "\<exists>e. sent (snd (sendSourceWasLoaded (cannedReporter True) sourceRequest emptyWorld)) = [e]"
    by simp
  from t h3 have 3:
    "\<exists>e. sent (snd (sendBPStatusChanged (cannedReporter True) bpRequest emptyWorld)) = [e]"
    by simp
  from t h4 have 4:
    "\<exists>e. sent (snd (sendExceptionThrown (cannedReporter True) exceptionRequest emptyWorld)) = [e]"
    by simp
  from f h5 have 5:
    "\<exists>e. sent (snd (sendOutput (cannedReporter False) plainOutputRequest emptyWorld)) = [e]"
    by simp
  from f have 6:
    "\<exists>e. sent (snd (sendDebuggeeIsStopped (cannedReporter False) stoppedRequest emptyWorld)) = [e]"
    by simp
  from c h2 h3 1 2 3 4 5 6 show ?thesis by (intro conjI)
qed

text \<open>
  Claim C2. Whatever the reason, and whether or not an exception is given,
  \<open>sendDebuggeeIsStopped\<close> succeeds and sends exactly one event, a Stopped event whose
  thread identifier is \<open>THREAD_ID\<close>.
\<close>

theorem stopped_carries_THREAD_ID:
  "sendDebuggeeIsStopped R p w =
     (Inr (), w\<lparr>sent := sent w @ [Stopped (IDebuggeeIsStoppedParameters.reason p) (THREAD_ID R) (exception p)]\<rparr>)
   \<and> threadId (last (sent (snd (sendDebuggeeIsStopped R p w)))) = Some (THREAD_ID R)
   \<and> length (sent (snd (sendDebuggeeIsStopped R p w))) = Suc (length (sent w))"
  by (simp add: sendDebuggeeIsStopped_def sendEvent_def StoppedEvent2_def)

section \<open>The events and their fields\<close>

text \<open>
  Claim C3. The body of the Output event that \<open>sendOutput\<close> sends has a
  \<open>variablesReference\<close> field exactly when the request carries a reference that is not
  zero, and then its value is that reference; it has the location fields exactly when the
  request carries a location. Its fields are \<open>category\<close> and \<open>output\<close>, plus those two
  groups: with no location and no reference, or a zero one, nothing else.
\<close>

theorem output_field_presence:
  assumes "sendOutput R p w = (Inr u, w')"
  shows "\<exists>b. sent w' = sent w @ [Output b]
     \<and> (''variablesReference'' \<in> dom b) = (\<exists>v. variablesReference p = Some v \<and> v \<noteq> 0)
     \<and> b ''variablesReference'' =
         (case variablesReference p of
            None \<Rightarrow> None
          | Some v \<Rightarrow> if v \<noteq> 0 then Some (Num v) else None)
     \<and> ({''source'', ''line'', ''column''} \<subseteq> dom b) = (IOutputParameters.location p \<noteq> None)
     \<and> ({''source'', ''line'', ''column''} \<inter> dom b = {}) = (IOutputParameters.location p = None)
     \<and> dom b = {''category'', ''output''}
          \<union> (case variablesReference p of
               None \<Rightarrow> {}
             | Some v \<Rightarrow> if v \<noteq> 0 then {''variablesReference''} else {})
          \<union> (case IOutputParameters.location p of
               None \<Rightarrow> {}
             | Some l \<Rightarrow> {''source'', ''line'', ''column''})"
proof -
  from sendOutput_ok [OF assms] obtain b where
    s: "sent w' = sent w @ [Output b]" and
    d: "dom b = {''category'', ''output''}
          \<union> (case variablesReference p of
               None \<Rightarrow> {}
             | Some v \<Rightarrow> if v \<noteq> 0 then {''variablesReference''} else {})
          \<union> (case IOutputParameters.location p of
               None \<Rightarrow> {}
             | Some l \<Rightarrow> {''source'', ''line'', ''column''})" and
    v: "b ''variablesReference'' =
         (case variablesReference p of
            None \<Rightarrow> None
          | Some v \<Rightarrow> if v \<noteq> 0 then Some (Num v) else None)"
    by blast
  have 1: "(''variablesReference'' \<in> dom b) = (\<exists>v. variablesReference p = Some v \<and> v \<noteq> 0)"
    unfolding d by (auto split: option.splits if_splits)
  have 2: "({''source'', ''line'', ''column''} \<subseteq> dom b) = (IOutputParameters.location p \<noteq> None)"
    unfolding d by (auto split: option.splits if_splits)
  have 3: "({''source'', ''line'', ''column''} \<inter> dom b = {}) = (IOutputParameters.location p = None)"
    unfolding d by (auto split: option.splits if_splits)
  from s d v 1 2 3 show ?thesis by (intro exI [of _ b] conjI)
qed

theorem output_field_presence_witness:
  "fst (sendOutput (cannedReporter True) plainOutputRequest emptyWorld) = Inr ()
   \<and> (\<exists>b. sent (snd (sendOutput (cannedReporter True) plainOutputRequest emptyWorld)) = [Output b]
          \<and> dom b = {''category'', ''output''})
   \<and> fst (sendOutput (cannedReporter True) outputRequest emptyWorld) = Inr ()
   \<and> (\<exists>b. sent (snd (sendOutput (cannedReporter True) outputRequest emptyWorld)) = [Output b]
          \<and> b ''variablesReference'' = Some (Num 7)
          \<and> {''source'', ''line'', ''column''} \<subseteq> dom b)"
proof -
  have f: "fst (sendOutput (cannedReporter True) plainOutputRequest emptyWorld) = Inr ()"
          "fst (sendOutput (cannedReporter True) outputRequest emptyWorld) = Inr ()"
    by (simp_all add: sendOutput_def toLocationInSource_def canned_defs)
  have h: "sendOutput (cannedReporter True) plainOutputRequest emptyWorld =
             (Inr (), snd (sendOutput (cannedReporter True) plainOutputRequest emptyWorld))"
          "sendOutput (cannedReporter True) outputRequest emptyWorld =
             (Inr (), snd (sendOutput (cannedReporter True) outputRequest emptyWorld))"
    using f by (simp_all add: prod_eq_iff)
  have p: "variablesReference plainOutputRequest = None"
          "IOutputParameters.location plainOutputRequest = None"
          "variablesReference outputRequest = Some 7"
          "IOutputParameters.location outputRequest = Some 3"
    by (simp_all add: plainOutputRequest_def outputRequest_def)
  have e: "sent emptyWorld = []" by (simp add: emptyWorld_def)
  have 1: "\<exists>b. sent (snd (sendOutput (cannedReporter True) plainOutputRequest emptyWorld)) = [Output b]
          \<and> dom b = {''category'', ''output''}"
    using output_field_presence [OF h(1), unfolded p e, simplified]
    by (elim exE conjE) (intro exI conjI; assumption)
  have 2: "\<exists>b. sent (snd (sendOutput (cannedReporter True) outputRequest emptyWorld)) = [Output b]
          \<and> b ''variablesReference'' = Some (Num 7)
          \<and> {''source'', ''line'', ''column''} \<subseteq> dom b"
  proof -
    from output_field_presence [OF h(2), unfolded p e, simplified]
    obtain b where
      "sent (snd (sendOutput (cannedReporter True) outputRequest emptyWorld)) = [Output b]"
      "b ''variablesReference'' = Some (Num 7)"
      "''source'' \<in> dom b" "''line'' \<in> dom b" "''column'' \<in> dom b"
      by (elim exE conjE) (rule that)
    then show ?thesis by (intro exI [of _ b]) simp
  qed
  from f 1 2 show ?thesis by simp
qed

text \<open>Two output requests with the same location are resolved alike.\<close>

lemma sendOutput_same_location:
  assumes "IOutputParameters.location p = IOutputParameters.location q"
  shows "fst (sendOutput R p w) = fst (sendOutput R q w)
     \<and> handles (snd (sendOutput R p w)) = handles (snd (sendOutput R q w))
     \<and> (\<forall>b b'. sent (snd (sendOutput R p w)) = sent w @ [Output b] \<longrightarrow>
                sent (snd (sendOutput R q w)) = sent w @ [Output b'] \<longrightarrow>
                b ''source'' = b' ''source'' \<and> b ''line'' = b' ''line''
                  \<and> b ''column'' = b' ''column'')"
proof (cases "IOutputParameters.location q")
  case None
  with assms show ?thesis
    by (simp add: sendOutput_def sendEvent_def OutputEvent_def Let_def split: option.splits)
next
  case (Some l)
  show ?thesis
  proof (cases "toClientLocation R l (handles w)")
    case (Pair r reg')
    with Some assms show ?thesis
      by (cases r)
         (simp_all add: sendOutput_def sendEvent_def toLocationInSource_def Let_def)
  qed
qed

text \<open>
  Claim C4. \<open>sendExceptionThrown\<close> is \<open>sendOutput\<close> on the rendered stack trace: the event
  sent is an Output event whose text is the rendering and whose category is that of the
  request, and a plain output request with the same location fails or succeeds alike,
  leaves the same registry and gets the same location fields.
\<close>

theorem exception_delegates_to_output:
  fixes p :: "('frame, 'loc) IExceptionThrownParameters"
  shows
  "sendExceptionThrown R p w =
     sendOutput R
       \<lparr>outputText = toStackTraceString R (exceptionStackTrace p),
        IOutputParameters.category = IExceptionThrownParameters.category p,
        variablesReference = None,
        IOutputParameters.location = IExceptionThrownParameters.location p\<rparr> w
   \<and> (\<forall>u w'. sendExceptionThrown R p w = (Inr u, w') \<longrightarrow>
         (\<exists>b. sent w' = sent w @ [Output b]
            \<and> b ''output'' = Some (Str (toStackTraceString R (exceptionStackTrace p)))
            \<and> b ''category'' = Some (Str (IExceptionThrownParameters.category p))))
   \<and> (\<forall>q :: 'loc IOutputParameters.
         IOutputParameters.location q = IExceptionThrownParameters.location p \<longrightarrow>
         fst (sendExceptionThrown R p w) = fst (sendOutput R q w)
         \<and> handles (snd (sendExceptionThrown R p w)) = handles (snd (sendOutput R q w))
         \<and> (\<forall>b b'. sent (snd (sendExceptionThrown R p w)) = sent w @ [Output b] \<longrightarrow>
                sent (snd (sendOutput R q w)) = sent w @ [Output b'] \<longrightarrow>
                b ''source'' = b' ''source'' \<and> b ''line'' = b' ''line''
                  \<and> b ''column'' = b' ''column''))"
proof (intro conjI allI impI)
  show "sendExceptionThrown R p w =
     sendOutput R
       \<lparr>outputText = toStackTraceString R (exceptionStackTrace p),
        IOutputParameters.category = IExceptionThrownParameters.category p,
        variablesReference = None,
        IOutputParameters.location = IExceptionThrownParameters.location p\<rparr> w"
    by (simp add: sendExceptionThrown_def)
next
  fix u w' assume "sendExceptionThrown R p w = (Inr u, w')"
  then have "sendOutput R
       \<lparr>outputText = toStackTraceString R (exceptionStackTrace p),
        IOutputParameters.category = IExceptionThrownParameters.category p,
        variablesReference = None,
        IOutputParameters.location = IExceptionThrownParameters.location p\<rparr> w = (Inr u, w')"
    by (simp add: sendExceptionThrown_def)
  from sendOutput_ok [OF this]
  show "\<exists>b. sent w' = sent w @ [Output b]
            \<and> b ''output'' = Some (Str (toStackTraceString R (exceptionStackTrace p)))
            \<and> b ''category'' = Some (Str (IExceptionThrownParameters.category p))"
    by auto
next
  fix q :: "'loc IOutputParameters"
  assume q: "IOutputParameters.location q = IExceptionThrownParameters.location p"
  have l: "IOutputParameters.location
       \<lparr>outputText = toStackTraceString R (exceptionStackTrace p),
        IOutputParameters.category = IExceptionThrownParameters.category p,
        variablesReference = None,
        IOutputParameters.location = IExceptionThrownParameters.location p\<rparr>
      = IOutputParameters.location q"
    using q by simp
  note s = sendOutput_same_location [OF l, of R w, folded sendExceptionThrown_def]
  from s show "fst (sendExceptionThrown R p w) = fst (sendOutput R q w)" by simp
  from s show "handles (snd (sendExceptionThrown R p w)) = handles (snd (sendOutput R q w))"
    by simp
  fix b b'
  assume "sent (snd (sendExceptionThrown R p w)) = sent w @ [Output b]"
     and "sent (snd (sendOutput R q w)) = sent w @ [Output b']"
  with s show "b ''source'' = b' ''source''" "b ''line'' = b' ''line''"
     "b ''column'' = b' ''column''"
    by blast+
qed

theorem exception_delegates_to_output_witness:
  "fst (sendExceptionThrown (cannedReporter True) exceptionRequest emptyWorld) = Inr ()
   \<and> (\<exists>b. sent (snd (sendExceptionThrown (cannedReporter True) exceptionRequest emptyWorld))
             = [Output b]
          \<and> b ''output'' = Some (Str ''at foo (a.js:1:1)'')
          \<and> b ''category'' = Some (Str ''stderr''))
   \<and> IOutputParameters.location (outputRequest\<lparr>IOutputParameters.location := Some 1\<rparr>)
       = IExceptionThrownParameters.location exceptionRequest
   \<and> fst (sendExceptionThrown (cannedReporter True) exceptionRequest emptyWorld)
       = fst (sendOutput (cannedReporter True)
                (outputRequest\<lparr>IOutputParameters.location := Some 1\<rparr>) emptyWorld)
   \<and> handles (snd (sendExceptionThrown (cannedReporter True) exceptionRequest emptyWorld))
       = handles (snd (sendOutput (cannedReporter True)
                (outputRequest\<lparr>IOutputParameters.location := Some 1\<rparr>) emptyWorld))"
proof -
  note t = exception_delegates_to_output [of "cannedReporter True" exceptionRequest emptyWorld]
  have f: "fst (sendExceptionThrown (cannedReporter True) exceptionRequest emptyWorld) = Inr ()"
    by (simp add: sendExceptionThrown_def sendOutput_def toLocationInSource_def canned_defs)
  then have h: "sendExceptionThrown (cannedReporter True) exceptionRequest emptyWorld =
      (Inr (), snd (sendExceptionThrown (cannedReporter True) exceptionRequest emptyWorld))"
    by (simp add: prod_eq_iff)
  have l: "IOutputParameters.location (outputRequest\<lparr>IOutputParameters.location := Some 1\<rparr>)
       = IExceptionThrownParameters.location exceptionRequest"
    by (simp add: exceptionRequest_def)
  have r: "toStackTraceString (cannedReporter True) (exceptionStackTrace exceptionRequest)
       = ''at foo (a.js:1:1)''"
     "IExceptionThrownParameters.category exceptionRequest = ''stderr''"
     "sent emptyWorld = []"
    by (simp_all add: canned_defs)
  from t h have "\<exists>b. sent (snd (sendExceptionThrown (cannedReporter True) exceptionRequest emptyWorld))
             = sent emptyWorld @ [Output b]
      \<and> b ''output'' = Some (Str (toStackTraceString (cannedReporter True)
                                (exceptionStackTrace exceptionRequest)))
      \<and> b ''category'' = Some (Str (IExceptionThrownParameters.category exceptionRequest))"
    by blast
  then have 1: "\<exists>b. sent (snd (sendExceptionThrown (cannedReporter True) exceptionRequest emptyWorld))
             = [Output b]
          \<and> b ''output'' = Some (Str ''at foo (a.js:1:1)'')
          \<and> b ''category'' = Some (Str ''stderr'')"
    unfolding r by simp
  from t l have 2: "fst (sendExceptionThrown (cannedReporter True) exceptionRequest emptyWorld)
       = fst (sendOutput (cannedReporter True)
                (outputRequest\<lparr>IOutputParameters.location := Some 1\<rparr>) emptyWorld)
   \<and> handles (snd (sendExceptionThrown (cannedReporter True) exceptionRequest emptyWorld))
       = handles (snd (sendOutput (cannedReporter True)
                (outputRequest\<lparr>IOutputParameters.location := Some 1\<rparr>) emptyWorld))"
    by blast
  from f 1 l 2 show ?thesis by (intro conjI) simp_all
qed

section \<open>A conversion that fails\<close>

text \<open>
  On the reporter above, taken as callees, the operations end as the operations above do:
  a failure of \<open>sendOutput\<close> is a throw, a failure of an async operation is a rejected
  promise.
\<close>

lemma sendOutputCall_callees:
  "sendOutputCall (callees R) p w =
     (case sendOutput R p w of
        (Inl e, w') \<Rightarrow> (Thrown e, w')
      | (Inr u, w') \<Rightarrow> (Completed, w'))"
  by (simp add: sendOutputCall_def sendOutput_def toLocationInSourceCall_def
        toLocationInSource_def callees_def Let_def
        split: option.splits prod.splits sum.splits)

lemma sendSourceWasLoadedCall_callees:
  "sendSourceWasLoadedCall (callees R) p w =
     (case sendSourceWasLoaded R p w of
        (Inl e, w') \<Rightarrow> (Rejected e, w')
      | (Inr u, w') \<Rightarrow> (Completed, w'))"
  by (simp add: sendSourceWasLoadedCall_def sendSourceWasLoaded_def callees_def
        split: prod.splits sum.splits)

lemma sendBPStatusChangedCall_callees:
  "sendBPStatusChangedCall (callees R) p w =
     (case sendBPStatusChanged R p w of
        (Inl e, w') \<Rightarrow> (Rejected e, w')
      | (Inr u, w') \<Rightarrow> (Completed, w'))"
  by (simp add: sendBPStatusChangedCall_def sendBPStatusChanged_def callees_def
        split: prod.splits sum.splits)

lemma sendExceptionThrownCall_callees:
  "sendExceptionThrownCall (callees R) p w =
     (case sendExceptionThrown R p w of
        (Inl e, w') \<Rightarrow> (Rejected e, w')
      | (Inr u, w') \<Rightarrow> (Completed, w'))"
proof -
  have "printer (callees R) = toStackTraceString R"
    by (simp add: callees_def)
  then show ?thesis
    by (simp add: sendExceptionThrownCall_def sendExceptionThrown_def sendOutputCall_callees
          split: prod.splits sum.splits)
qed

text \<open>A location converter that throws makes \<open>sendOutput\<close> throw.\<close>

lemma sendOutputCall_throws:
  "IOutputParameters.location p = Some l \<Longrightarrow> locationCall C l (handles w) = (Throws e, reg') \<Longrightarrow>
   sendOutputCall C p w = (Thrown e, w\<lparr>handles := reg'\<rparr>)"
  by (simp add: sendOutputCall_def toLocationInSourceCall_def Let_def)

text \<open>
  Claim C5, as amended. When the source converter or the breakpoint-status converter throws
  or its promise is rejected, the operation rejects its promise with that error; when the
  location converter throws, \<open>sendOutput\<close> throws that error and \<open>sendExceptionThrown\<close>
  rejects its promise with it. In each case no event is sent and the registry is the one the
  single failed conversion left: the conversion is not tried again.
\<close>

theorem failed_conversion_sends_nothing:
  "(sourceCall C (ISourceWasLoadedParameters.source ps) (handles w) = (Throws e, reg')
      \<or> sourceCall C (ISourceWasLoadedParameters.source ps) (handles w) = (Rejects e, reg') \<longrightarrow>
      sendSourceWasLoadedCall C ps w = (Rejected e, w\<lparr>handles := reg'\<rparr>)
      \<and> sent (snd (sendSourceWasLoadedCall C ps w)) = sent w)
   \<and> (breakpointCall C (bpRecipeStatus pb) (handles w) = (Throws e, reg')
      \<or> breakpointCall C (bpRecipeStatus pb) (handles w) = (Rejects e, reg') \<longrightarrow>
      sendBPStatusChangedCall C pb w = (Rejected e, w\<lparr>handles := reg'\<rparr>)
      \<and> sent (snd (sendBPStatusChangedCall C pb w)) = sent w)
   \<and> (IOutputParameters.location po = Some l
        \<and> locationCall C l (handles w) = (Throws e, reg') \<longrightarrow>
      sendOutputCall C po w = (Thrown e, w\<lparr>handles := reg'\<rparr>)
      \<and> sent (snd (sendOutputCall C po w)) = sent w)
   \<and> (IExceptionThrownParameters.location pe = Some l
        \<and> locationCall C l (handles w) = (Throws e, reg') \<longrightarrow>
      sendExceptionThrownCall C pe w = (Rejected e, w\<lparr>handles := reg'\<rparr>)
      \<and> sent (snd (sendExceptionThrownCall C pe w)) = sent w)"
proof (intro conjI impI)
  assume "sourceCall C (ISourceWasLoadedParameters.source ps) (handles w) = (Throws e, reg')
      \<or> sourceCall C (ISourceWasLoadedParameters.source ps) (handles w) = (Rejects e, reg')"
  then have "sendSourceWasLoadedCall C ps w = (Rejected e, w\<lparr>handles := reg'\<rparr>)"
    by (auto simp: sendSourceWasLoadedCall_def)
  then show "sendSourceWasLoadedCall C ps w = (Rejected e, w\<lparr>handles := reg'\<rparr>)"
    and "sent (snd (sendSourceWasLoadedCall C ps w)) = sent w"
    by simp_all
next
  assume "breakpointCall C (bpRecipeStatus pb) (handles w) = (Throws e, reg')
      \<or> breakpointCall C (bpRecipeStatus pb) (handles w) = (Rejects e, reg')"
  then have "sendBPStatusChangedCall C pb w = (Rejected e, w\<lparr>handles := reg'\<rparr>)"
    by (auto simp: sendBPStatusChangedCall_def)
  then show "sendBPStatusChangedCall C pb w = (Rejected e, w\<lparr>handles := reg'\<rparr>)"
    and "sent (snd (sendBPStatusChangedCall C pb w)) = sent w"
    by simp_all
next
  assume "IOutputParameters.location po = Some l
        \<and> locationCall C l (handles w) = (Throws e, reg')"
  then have "sendOutputCall C po w = (Thrown e, w\<lparr>handles := reg'\<rparr>)"
    by (simp add: sendOutputCall_throws)
  then show "sendOutputCall C po w = (Thrown e, w\<lparr>handles := reg'\<rparr>)"
    and "sent (snd (sendOutputCall C po w)) = sent w"
    by simp_all
next
  assume "IExceptionThrownParameters.location pe = Some l
        \<and> locationCall C l (handles w) = (Throws e, reg')"
  then have "IExceptionThrownParameters.location pe = Some l"
    and c: "locationCall C l (handles w) = (Throws e, reg')"
    by simp_all
  then have "IOutputParameters.location
       \<lparr>outputText = printer C (exceptionStackTrace pe),
        IOutputParameters.category = IExceptionThrownParameters.category pe,
        variablesReference = None,
        IOutputParameters.location = IExceptionThrownParameters.location pe\<rparr> = Some l"
    by simp
  from sendOutputCall_throws [OF this c]
  have "sendExceptionThrownCall C pe w = (Rejected e, w\<lparr>handles := reg'\<rparr>)"
    by (simp add: sendExceptionThrownCall_def)
  then show "sendExceptionThrownCall C pe w = (Rejected e, w\<lparr>handles := reg'\<rparr>)"
    and "sent (snd (sendExceptionThrownCall C pe w)) = sent w"
    by simp_all
qed

theorem failed_conversion_sends_nothing_witness:
  "sourceCall (failingCallees True) (ISourceWasLoadedParameters.source sourceRequest)
       (handles emptyWorld) = (Rejects ''unknown source kind'', handles emptyWorld)
   \<and> sendSourceWasLoadedCall (failingCallees True) sourceRequest emptyWorld
       = (Rejected ''unknown source kind'', emptyWorld)
   \<and> breakpointCall (failingCallees False) (bpRecipeStatus bpRequest) (handles emptyWorld)
       = (Throws ''cannot convert the status'', handles emptyWorld)
   \<and> sendBPStatusChangedCall (failingCallees False) bpRequest emptyWorld
       = (Rejected ''cannot convert the status'', emptyWorld)
   \<and> IOutputParameters.location outputRequest = Some 3
   \<and> locationCall (failingCallees False) 3 (handles emptyWorld)
       = (Throws ''cannot resolve the source'', handles emptyWorld)
   \<and> sendOutputCall (failingCallees False) outputRequest emptyWorld
       = (Thrown ''cannot resolve the source'', emptyWorld)
   \<and> IExceptionThrownParameters.location exceptionRequest = Some 1
   \<and> locationCall (failingCallees False) 1 (handles emptyWorld)
       = (Throws ''cannot resolve the source'', handles emptyWorld)
   \<and> sendExceptionThrownCall (failingCallees False) exceptionRequest emptyWorld
       = (Rejected ''cannot resolve the source'', emptyWorld)"
proof -
  have s: "sourceCall (failingCallees True) (ISourceWasLoadedParameters.source sourceRequest)
       (handles emptyWorld) = (Rejects ''unknown source kind'', handles emptyWorld)"
    by (simp add: failingCallees_def)
  have b: "breakpointCall (failingCallees False) (bpRecipeStatus bpRequest) (handles emptyWorld)
       = (Throws ''cannot convert the status'', handles emptyWorld)"
    by (simp add: failingCallees_def)
  have l: "IOutputParameters.location outputRequest = Some 3"
      "locationCall (failingCallees False) 3 (handles emptyWorld)
       = (Throws ''cannot resolve the source'', handles emptyWorld)"
      "IExceptionThrownParameters.location exceptionRequest = Some 1"
      "locationCall (failingCallees False) 1 (handles emptyWorld)
       = (Throws ''cannot resolve the source'', handles emptyWorld)"
    by (simp_all add: failingCallees_def outputRequest_def exceptionRequest_def)
  have w: "emptyWorld\<lparr>handles := handles emptyWorld\<rparr> = emptyWorld"
    by (simp add: emptyWorld_def)
  note t = failed_conversion_sends_nothing
    [where w = emptyWorld and reg' = "handles emptyWorld", unfolded w]
  from t [where C = "failingCallees True" and ps = sourceRequest
            and e = "''unknown source kind''", THEN conjunct1] s
  have 1: "sendSourceWasLoadedCall (failingCallees True) sourceRequest emptyWorld
       = (Rejected ''unknown source kind'', emptyWorld)"
    by simp
  from t [where C = "failingCallees False" and pb = bpRequest
            and e = "''cannot convert the status''", THEN conjunct2, THEN conjunct1] b
  have 2: "sendBPStatusChangedCall (failingCallees False) bpRequest emptyWorld
       = (Rejected ''cannot convert the status'', emptyWorld)"
    by simp
  from t [where C = "failingCallees False" and po = outputRequest and l = 3
            and e = "''cannot resolve the source''",
          THEN conjunct2, THEN conjunct2, THEN conjunct1] l(1,2)
  have 3: "sendOutputCall (failingCallees False) outputRequest emptyWorld
       = (Thrown ''cannot resolve the source'', emptyWorld)"
    by simp
  from t [where C = "failingCallees False" and pe = exceptionRequest and l = 1
            and e = "''cannot resolve the source''",
          THEN conjunct2, THEN conjunct2, THEN conjunct2] l(3,4)
  have 4: "sendExceptionThrownCall (failingCallees False) exceptionRequest emptyWorld
       = (Rejected ''cannot resolve the source'', emptyWorld)"
    by simp
  from s b l 1 2 3 4 show ?thesis by (intro conjI)
qed

text \<open>
  The claim as it was stated fails where the location converter returns a promise that is
  rejected: \<open>sendOutput\<close> completes and one event is sent. And where the location converter
  throws, \<open>sendOutput\<close> ends by a throw, not by a rejected promise.
\<close>

theorem rejected_location_promise_still_sends:
  "IOutputParameters.location outputRequest = Some 3
   \<and> locationCall (failingCallees True) 3 (handles emptyWorld)
       = (Rejects ''cannot resolve the source'', handles emptyWorld)
   \<and> fst (sendOutputCall (failingCallees True) outputRequest emptyWorld) = Completed
   \<and> length (sent (snd (sendOutputCall (failingCallees True) outputRequest emptyWorld))) = 1
   \<and> fst (sendOutputCall (failingCallees False) outputRequest emptyWorld)
       = Thrown ''cannot resolve the source''"
  by (simp add: sendOutputCall_def toLocationInSourceCall_def sendEvent_def failingCallees_def
        outputRequest_def emptyWorld_def)

section \<open>Handles, breakpoints and sources\<close>

text \<open>Registering an identity a second time gives the handle of the first time.\<close>

lemma register_twice:
  "register x reg = (h, reg') \<Longrightarrow> register x reg' = (h, reg')"
  by (cases "map_of (issued reg) x") (auto simp: register_def map_add_def)

text \<open>
  Claim C6. With the source converter of the specification, two successive
  \<open>sendSourceWasLoaded\<close> calls for one source that has no path send two LoadedSource events
  whose client sources carry the same handle.
\<close>

theorem memory_source_keeps_its_handle:
  assumes "toSource R = SourceToClientConverter_toSource"
    and "filePath s = None"
  shows "\<exists>h reg'.
     sendSourceWasLoaded R
         \<lparr>ISourceWasLoadedParameters.reason = r1, ISourceWasLoadedParameters.source = s\<rparr> w
       = (Inr (),
          \<lparr>sent = sent w @ [LoadedSource r1
                     \<lparr>name = identity s, path = None, sourceReference = Some h\<rparr>],
           handles = reg'\<rparr>)
     \<and> sendSourceWasLoaded R
         \<lparr>ISourceWasLoadedParameters.reason = r2, ISourceWasLoadedParameters.source = s\<rparr>
         \<lparr>sent = sent w @ [LoadedSource r1
                     \<lparr>name = identity s, path = None, sourceReference = Some h\<rparr>],
           handles = reg'\<rparr>
       = (Inr (),
          \<lparr>sent = sent w @ [LoadedSource r1
                     \<lparr>name = identity s, path = None, sourceReference = Some h\<rparr>,
                   LoadedSource r2
                     \<lparr>name = identity s, path = None, sourceReference = Some h\<rparr>],
           handles = reg'\<rparr>)"
proof -
  obtain h reg' where r: "register (identity s) (handles w) = (h, reg')"
    by (cases "register (identity s) (handles w)")
  from register_twice [OF r] have r': "register (identity s) reg' = (h, reg')" .
  have 1: "toSource R s (handles w)
      = (Inr \<lparr>name = identity s, path = None, sourceReference = Some h\<rparr>, reg')"
    using assms r by (simp add: SourceToClientConverter_toSource_def)
  have 2: "toSource R s reg'
      = (Inr \<lparr>name = identity s, path = None, sourceReference = Some h\<rparr>, reg')"
    using assms r' by (simp add: SourceToClientConverter_toSource_def)
  show ?thesis
    by (intro exI [of _ h] exI [of _ reg'])
       (simp add: sendSourceWasLoaded_def sendEvent_def LoadedSourceEvent_def 1 2)
qed

theorem memory_source_keeps_its_handle_witness:
  "toSource (cannedReporter True) = SourceToClientConverter_toSource
   \<and> filePath \<lparr>identity = ''VM42'', filePath = None\<rparr> = None
   \<and> (\<exists>h reg'.
     sendSourceWasLoaded (cannedReporter True)
         \<lparr>ISourceWasLoadedParameters.reason = New,
          ISourceWasLoadedParameters.source = \<lparr>identity = ''VM42'', filePath = None\<rparr>\<rparr> emptyWorld
       = (Inr (),
          \<lparr>sent = [LoadedSource New \<lparr>name = ''VM42'', path = None, sourceReference = Some h\<rparr>],
           handles = reg'\<rparr>)
     \<and> sendSourceWasLoaded (cannedReporter True)
         \<lparr>ISourceWasLoadedParameters.reason = Changed,
          ISourceWasLoadedParameters.source = \<lparr>identity = ''VM42'', filePath = None\<rparr>\<rparr>
         (\<lparr>sent = [LoadedSource New \<lparr>name = ''VM42'', path = None, sourceReference = Some h\<rparr>],
           handles = reg'\<rparr> :: (bool \<times> int, string, string HandlesRegistry) world)
       = (Inr (),
          \<lparr>sent = [LoadedSource New \<lparr>name = ''VM42'', path = None, sourceReference = Some h\<rparr>,
                   LoadedSource Changed
                     \<lparr>name = ''VM42'', path = None, sourceReference = Some h\<rparr>],
           handles = reg'\<rparr>))"
proof -
  have a: "toSource (cannedReporter True) = SourceToClientConverter_toSource"
    by (simp add: cannedReporter_def)
  have b: "filePath \<lparr>identity = ''VM42'', filePath = None\<rparr> = None"
    by simp
  have e: "sent emptyWorld = []" by (simp add: emptyWorld_def)
  from memory_source_keeps_its_handle [OF a b, of New emptyWorld Changed] a b
  show ?thesis unfolding e by simp
qed

text \<open>
  Claim C7. When the status converts to \<open>bp\<close>, \<open>sendBPStatusChanged\<close> sends exactly one
  event, the Breakpoint event with the reason of the request and with \<open>bp\<close>.
\<close>

theorem breakpoint_event_reflects_status:
  assumes "toBreakpoint R (bpRecipeStatus p) (handles w) = (Inr bp, reg')"
  shows "sendBPStatusChanged R p w =
     (Inr (), \<lparr>sent = sent w @ [Breakpoint (IBPStatusChangedParameters.reason p) bp],
               handles = reg'\<rparr>)"
  using assms by (rule sendBPStatusChanged_ok)

theorem breakpoint_event_reflects_status_witness:
  "toBreakpoint (cannedReporter True) (bpRecipeStatus bpRequest) (handles emptyWorld)
     = (Inr (True, 42), handles emptyWorld)
   \<and> sendBPStatusChanged (cannedReporter True) bpRequest emptyWorld =
     (Inr (), emptyWorld\<lparr>sent := [Breakpoint ''changed'' (True, 42)]\<rparr>)"
proof -
  have h: "toBreakpoint (cannedReporter True) (bpRecipeStatus bpRequest) (handles emptyWorld)
     = (Inr (True, 42), handles emptyWorld)"
    by (simp add: cannedReporter_def bpRequest_def)
  have r: "IBPStatusChangedParameters.reason bpRequest = ''changed''"
    by (simp add: bpRequest_def)
  have e: "\<lparr>sent = sent emptyWorld @ [Breakpoint ''changed'' (True, 42)],
            handles = handles emptyWorld\<rparr>
         = emptyWorld\<lparr>sent := [Breakpoint ''changed'' (True, 42)]\<rparr>"
    by (simp add: emptyWorld_def)
  from breakpoint_event_reflects_status [OF h] h show ?thesis
    unfolding r e by simp
qed

text \<open>
  Claim C8. When the source converts to \<open>clientSource\<close>, \<open>sendSourceWasLoaded\<close> sends
  exactly one event, the LoadedSource event with the reason of the request and with
  \<open>clientSource\<close>.
\<close>

theorem loaded_source_event_reflects_source:
  assumes "toSource R (ISourceWasLoadedParameters.source p) (handles w) = (Inr clientSource, reg')"
  shows "sendSourceWasLoaded R p w =
     (Inr (), \<lparr>sent = sent w @ [LoadedSource (ISourceWasLoadedParameters.reason p) clientSource],
               handles = reg'\<rparr>)"
  using assms by (rule sendSourceWasLoaded_ok)

theorem loaded_source_event_reflects_source_witness:
  "toSource (cannedReporter True) (ISourceWasLoadedParameters.source sourceRequest)
       (handles emptyWorld)
     = (Inr \<lparr>name = ''VM42'', path = None, sourceReference = Some 1000\<rparr>,
        \<lparr>nextHandle = 1001, issued = [(''VM42'', 1000)]\<rparr>)
   \<and> sendSourceWasLoaded (cannedReporter True) sourceRequest emptyWorld =
     (Inr (), \<lparr>sent = [LoadedSource New
                          \<lparr>name = ''VM42'', path = None, sourceReference = Some 1000\<rparr>],
               handles = \<lparr>nextHandle = 1001, issued = [(''VM42'', 1000)]\<rparr>\<rparr>)"
proof -
  have h: "toSource (cannedReporter True) (ISourceWasLoadedParameters.source sourceRequest)
       (handles emptyWorld)
     = (Inr \<lparr>name = ''VM42'', path = None, sourceReference = Some 1000\<rparr>,
        \<lparr>nextHandle = 1001, issued = [(''VM42'', 1000)]\<rparr>)"
    by (simp add: canned_defs)
  have r: "ISourceWasLoadedParameters.reason sourceRequest = New" "sent emptyWorld = []"
    by (simp_all add: sourceRequest_def emptyWorld_def)
  from loaded_source_event_reflects_source [OF h] h show ?thesis
    unfolding r by simp
qed

text \<open>
  Claim C10. \<open>sendExceptionThrown\<close> either fails and sends nothing, or sends one Output
  event whose body has no \<open>variablesReference\<close> field; that body has the location fields
  exactly when the request carries a location.
\<close>

theorem exception_output_has_no_variablesReference:
  "(isl (fst (sendExceptionThrown R p w)) \<and> sent (snd (sendExceptionThrown R p w)) = sent w)
   \<or> (\<exists>b. sent (snd (sendExceptionThrown R p w)) = sent w @ [Output b]
          \<and> ''variablesReference'' \<notin> dom b
          \<and> ({''source'', ''line'', ''column''} \<subseteq> dom b)
              = (IExceptionThrownParameters.location p \<noteq> None))"
proof (cases "sendExceptionThrown R p w")
  case (Pair r w')
  show ?thesis
  proof (cases r)
    case (Inl e)
    with Pair have "sendOutput R
       \<lparr>outputText = toStackTraceString R (exceptionStackTrace p),
        IOutputParameters.category = IExceptionThrownParameters.category p,
        variablesReference = None,
        IOutputParameters.location = IExceptionThrownParameters.location p\<rparr> w = (Inl e, w')"
      by (simp add: sendExceptionThrown_def)
    from sendOutput_fail [OF this] Pair Inl show ?thesis by simp
  next
    case (Inr u)
    with Pair have "sendOutput R
       \<lparr>outputText = toStackTraceString R (exceptionStackTrace p),
        IOutputParameters.category = IExceptionThrownParameters.category p,
        variablesReference = None,
        IOutputParameters.location = IExceptionThrownParameters.location p\<rparr> w = (Inr u, w')"
      by (simp add: sendExceptionThrown_def)
    from sendOutput_ok [OF this] obtain b where
      s: "sent w' = sent w @ [Output b]" and
      d: "dom b = {''category'', ''output''}
            \<union> (case IExceptionThrownParameters.location p of
                 None \<Rightarrow> {}
               | Some l \<Rightarrow> {''source'', ''line'', ''column''})"
      by (elim exE conjE) (rule that, simp_all)
    have 1: "''variablesReference'' \<notin> dom b"
      unfolding d by (simp split: option.splits)
    have 2: "({''source'', ''line'', ''column''} \<subseteq> dom b)
              = (IExceptionThrownParameters.location p \<noteq> None)"
      unfolding d by (auto split: option.splits)
    from s 1 2 Pair show ?thesis
      by (intro disjI2 exI [of _ b]) simp
  qed
qed

theorem exception_output_has_no_variablesReference_witness:
  "\<exists>b. sent (snd (sendExceptionThrown (cannedReporter True) exceptionRequest emptyWorld))
         = [Output b]
       \<and> ''variablesReference'' \<notin> dom b
       \<and> {''source'', ''line'', ''column''} \<subseteq> dom b"
proof -
  have f: "\<not> isl (fst (sendExceptionThrown (cannedReporter True) exceptionRequest emptyWorld))"
    by (simp add: sendExceptionThrown_def sendOutput_def toLocationInSource_def canned_defs)
  have r: "IExceptionThrownParameters.location exceptionRequest \<noteq> None" "sent emptyWorld = []"
    by (simp_all add: canned_defs)
  from exception_output_has_no_variablesReference
         [of "cannedReporter True" exceptionRequest emptyWorld] f
  have "\<exists>b. sent (snd (sendExceptionThrown (cannedReporter True) exceptionRequest emptyWorld))
         = sent emptyWorld @ [Output b]
          \<and> ''variablesReference'' \<notin> dom b
          \<and> ({''source'', ''line'', ''column''} \<subseteq> dom b)
              = (IExceptionThrownParameters.location exceptionRequest \<noteq> None)"
    by (elim disjE conjE) (simp, assumption)
  then show ?thesis unfolding r(2) using r(1) by simp
qed

section \<open>The request is left as it was\<close>

text \<open>
  An assignment writes to the object it is aimed at, whatever that object is, and leaves
  the objects before it as they are.
\<close>

lemma take_assignField:
  "n \<le> a \<Longrightarrow> take n (assignField a f v st) = take n st"
  by (simp add: assignField_def)

lemma length_assignField [simp]:
  "length (assignField a f v st) = length st"
  by (simp add: assignField_def)

lemma assignField_writes:
  "a < length st \<Longrightarrow> assignField a f v st ! a = (st ! a)(f \<mapsto> v)"
  by (simp add: assignField_def)

text \<open>
  Every object that is in the store before a call is in the store after it, unchanged,
  whether the call succeeds or fails.
\<close>

lemma sendOutputAt_frame:
  "take (length (store w)) (store (snd (sendOutputAt R params w))) = store w"
  by (auto simp: sendOutputAt_def new_def sendEventAt_def toLocationInSourceAt_def
        take_assignField Let_def split: option.splits sum.splits prod.splits)

lemma sendSourceWasLoadedAt_frame:
  "take (length (store w)) (store (snd (sendSourceWasLoadedAt R params w))) = store w"
  by (auto simp: sendSourceWasLoadedAt_def new_def sendEventAt_def
        split: option.splits sum.splits prod.splits)

lemma sendBPStatusChangedAt_frame:
  "take (length (store w)) (store (snd (sendBPStatusChangedAt R params w))) = store w"
  by (auto simp: sendBPStatusChangedAt_def new_def sendEventAt_def
        split: option.splits sum.splits prod.splits)

lemma sendDebuggeeIsStoppedAt_frame:
  "take (length (store w)) (store (snd (sendDebuggeeIsStoppedAt R params w))) = store w"
  by (auto simp: sendDebuggeeIsStoppedAt_def new_def sendEventAt_def split: option.splits)

lemma take_take_prefix:
  "take (Suc n) xs = ys \<Longrightarrow> take n xs = take n ys"
  by (metis min.absorb1 le_add2 plus_1_eq_Suc take_take)

lemma sendExceptionThrownAt_frame:
  "take (length (store w)) (store (snd (sendExceptionThrownAt R params w))) = store w"
proof (cases "requestAt readExceptionThrownParameters (store w) params")
  case None
  then show ?thesis by (simp add: sendExceptionThrownAt_def)
next
  case (Some p)
  obtain q where e: "sendExceptionThrownAt R params w
      = sendOutputAt R (length (store w)) (w\<lparr>store := store w @ [q]\<rparr>)"
    using Some by (simp add: sendExceptionThrownAt_def new_def)
  from sendOutputAt_frame [of "w\<lparr>store := store w @ [q]\<rparr>" R "length (store w)"]
  have "take (Suc (length (store w)))
          (store (snd (sendOutputAt R (length (store w)) (w\<lparr>store := store w @ [q]\<rparr>))))
          = store w @ [q]"
    by simp
  from take_take_prefix [OF this] show ?thesis
    by (simp add: e)
qed

lemma prefix_nth:
  "take n xs = ys \<Longrightarrow> a < length ys \<Longrightarrow> xs ! a = ys ! a"
  by (metis length_take min_less_iff_conj nth_take)

text \<open>
  Claim C9. For each of the five operations, after the call, succeeded or failed, the
  object at \<open>params\<close> is the one that was there before, with every field as it was, and so
  is every other object that existed before the call: what the call writes to is an object
  it has created itself, the body of the event in \<open>sendOutputAt\<close>.
\<close>

theorem requests_are_not_mutated:
  assumes "params < length (store w)"
  shows "(take (length (store w)) (store (snd (sendOutputAt R params w))) = store w
          \<and> store (snd (sendOutputAt R params w)) ! params = store w ! params)
       \<and> (take (length (store w)) (store (snd (sendSourceWasLoadedAt R params w))) = store w
          \<and> store (snd (sendSourceWasLoadedAt R params w)) ! params = store w ! params)
       \<and> (take (length (store w)) (store (snd (sendBPStatusChangedAt R params w))) = store w
          \<and> store (snd (sendBPStatusChangedAt R params w)) ! params = store w ! params)
       \<and> (take (length (store w)) (store (snd (sendExceptionThrownAt R params w))) = store w
          \<and> store (snd (sendExceptionThrownAt R params w)) ! params = store w ! params)
       \<and> (take (length (store w)) (store (snd (sendDebuggeeIsStoppedAt R params w))) = store w
          \<and> store (snd (sendDebuggeeIsStoppedAt R params w)) ! params = store w ! params)"
  using assms
    sendOutputAt_frame [of w R params] sendSourceWasLoadedAt_frame [of w R params]
    sendBPStatusChangedAt_frame [of w R params] sendExceptionThrownAt_frame [of w R params]
    sendDebuggeeIsStoppedAt_frame [of w R params]
    prefix_nth [OF sendOutputAt_frame [of w R params], of params]
    prefix_nth [OF sendSourceWasLoadedAt_frame [of w R params], of params]
    prefix_nth [OF sendBPStatusChangedAt_frame [of w R params], of params]
    prefix_nth [OF sendExceptionThrownAt_frame [of w R params], of params]
    prefix_nth [OF sendDebuggeeIsStoppedAt_frame [of w R params], of params]
  by simp

theorem requests_are_not_mutated_witness:
  "0 < length (store storeWorld)
   \<and> 3 < length (store storeWorld)
   \<and> fst (sendOutputAt (cannedReporter True) 0 storeWorld) = Inr ()
   \<and> store (snd (sendOutputAt (cannedReporter True) 0 storeWorld)) ! 0 = store storeWorld ! 0
   \<and> take 5 (store (snd (sendOutputAt (cannedReporter True) 0 storeWorld))) = store storeWorld
   \<and> (store (snd (sendOutputAt (cannedReporter True) 0 storeWorld)) ! 5) ''variablesReference''
       = Some (Prim (Num 7))
   \<and> (store (snd (sendOutputAt (cannedReporter True) 0 storeWorld)) ! 5) ''line''
       = Some (Prim (Num 3))
   \<and> fst (sendOutputAt (cannedReporter False) 0 storeWorld)
       = Inl (Failed ''cannot resolve the source'')
   \<and> store (snd (sendOutputAt (cannedReporter False) 0 storeWorld)) ! 0 = store storeWorld ! 0
   \<and> fst (sendExceptionThrownAt (cannedReporter True) 3 storeWorld) = Inr ()
   \<and> store (snd (sendExceptionThrownAt (cannedReporter True) 3 storeWorld)) ! 3
       = store storeWorld ! 3"
proof -
  have l: "0 < length (store storeWorld)" "3 < length (store storeWorld)"
    by (simp_all add: storeWorld_def)
  have n: "length (store storeWorld) = 5"
    by (simp add: storeWorld_def)
  note a = requests_are_not_mutated [OF l(1), of "cannedReporter True", unfolded n]
  note b = requests_are_not_mutated [OF l(1), of "cannedReporter False", unfolded n]
  note c = requests_are_not_mutated [OF l(2), of "cannedReporter True", unfolded n]
  from a have 1: "store (snd (sendOutputAt (cannedReporter True) 0 storeWorld)) ! 0
       = store storeWorld ! 0"
    and 2: "take 5 (store (snd (sendOutputAt (cannedReporter True) 0 storeWorld)))
       = store storeWorld"
    by simp_all
  from b have 3: "store (snd (sendOutputAt (cannedReporter False) 0 storeWorld)) ! 0
       = store storeWorld ! 0"
    by simp
  from c have 4: "store (snd (sendExceptionThrownAt (cannedReporter True) 3 storeWorld)) ! 3
       = store storeWorld ! 3"
    by simp
  have 5: "fst (sendOutputAt (cannedReporter True) 0 storeWorld) = Inr ()"
      "(store (snd (sendOutputAt (cannedReporter True) 0 storeWorld)) ! 5) ''variablesReference''
         = Some (Prim (Num 7))"
      "(store (snd (sendOutputAt (cannedReporter True) 0 storeWorld)) ! 5) ''line''
         = Some (Prim (Num 3))"
      "fst (sendOutputAt (cannedReporter False) 0 storeWorld)
         = Inl (Failed ''cannot resolve the source'')"
    by (simp_all add: sendOutputAt_def requestAt_def objectAt_def readOutputParameters_def
          new_def assignField_def toLocationInSourceAt_def sendEventAt_def storeWorld_def
          cannedReporter_def)
  have 6: "fst (sendExceptionThrownAt (cannedReporter True) 3 storeWorld) = Inr ()"
    by (simp add: sendExceptionThrownAt_def sendOutputAt_def requestAt_def objectAt_def
          readExceptionThrownParameters_def readOutputParameters_def
          new_def assignField_def toLocationInSourceAt_def sendEventAt_def storeWorld_def
          cannedReporter_def)
  from l 1 2 3 4 5 6 show ?thesis by (intro conjI)
qed

text \<open>
  The operations on the store and the operations on values agree: on the request read at
  \<open>params\<close> they fail or succeed alike, leave the same registry, keep what was delivered
  and deliver the same new events.
\<close>

lemma lowerBody_bodyObject [simp]:
  "lowerBody (bodyObject b) = b"
  by (rule ext) (simp add: lowerBody_def bodyObject_def split: option.splits)

lemma lowerBody_update [simp]:
  "lowerBody (ob(f \<mapsto> Prim v)) = (lowerBody ob)(f \<mapsto> v)"
  by (rule ext) (simp add: lowerBody_def)

lemma sendOutputAt_refines:
  assumes "requestAt readOutputParameters (store w) params = Some p"
    and "handles v = registry w"
  shows "fst (sendOutputAt R params w) = map_sum Failed id (fst (sendOutput R p v))
     \<and> registry (snd (sendOutputAt R params w)) = handles (snd (sendOutput R p v))
     \<and> take (length (delivered w)) (delivered (snd (sendOutputAt R params w))) = delivered w
     \<and> newEvents w (snd (sendOutputAt R params w))
         = map Some (drop (length (sent v)) (sent (snd (sendOutput R p v))))"
  using assms
  by (auto simp: sendOutputAt_def sendOutput_def new_def sendEventAt_def sendEvent_def
        toLocationInSourceAt_def toLocationInSource_def newEvents_def eventAt_def
        objectAt_def outputEventObject_def assignField_def nth_append Let_def
        split: option.splits sum.splits prod.splits)

lemma sendSourceWasLoadedAt_refines:
  assumes "requestAt readSourceWasLoadedParameters (store w) params = Some p"
    and "handles v = registry w"
  shows "fst (sendSourceWasLoadedAt R params w)
         = map_sum Failed id (fst (sendSourceWasLoaded R p v))
     \<and> registry (snd (sendSourceWasLoadedAt R params w))
         = handles (snd (sendSourceWasLoaded R p v))
     \<and> take (length (delivered w)) (delivered (snd (sendSourceWasLoadedAt R params w)))
         = delivered w
     \<and> newEvents w (snd (sendSourceWasLoadedAt R params w))
         = map Some (drop (length (sent v)) (sent (snd (sendSourceWasLoaded R p v))))"
  using assms
  by (auto simp: sendSourceWasLoadedAt_def sendSourceWasLoaded_def new_def sendEventAt_def
        sendEvent_def newEvents_def eventAt_def objectAt_def loadedSourceEventObject_def
        LoadedSourceEvent_def nth_append
        split: sum.splits prod.splits)

lemma sendBPStatusChangedAt_refines:
  assumes "requestAt readBPStatusChangedParameters (store w) params = Some p"
    and "handles v = registry w"
  shows "fst (sendBPStatusChangedAt R params w)
         = map_sum Failed id (fst (sendBPStatusChanged R p v))
     \<and> registry (snd (sendBPStatusChangedAt R params w))
         = handles (snd (sendBPStatusChanged R p v))
     \<and> take (length (delivered w)) (delivered (snd (sendBPStatusChangedAt R params w)))
         = delivered w
     \<and> newEvents w (snd (sendBPStatusChangedAt R params w))
         = map Some (drop (length (sent v)) (sent (snd (sendBPStatusChanged R p v))))"
  using assms
  by (auto simp: sendBPStatusChangedAt_def sendBPStatusChanged_def new_def sendEventAt_def
        sendEvent_def newEvents_def eventAt_def objectAt_def breakpointEventObject_def
        BreakpointEvent_def nth_append
        split: sum.splits prod.splits)

lemma sendDebuggeeIsStoppedAt_refines:
  assumes "requestAt readDebuggeeIsStoppedParameters (store w) params = Some p"
    and "handles v = registry w"
  shows "fst (sendDebuggeeIsStoppedAt R params w)
         = map_sum Failed id (fst (sendDebuggeeIsStopped R p v))
     \<and> registry (snd (sendDebuggeeIsStoppedAt R params w))
         = handles (snd (sendDebuggeeIsStopped R p v))
     \<and> take (length (delivered w)) (delivered (snd (sendDebuggeeIsStoppedAt R params w)))
         = delivered w
     \<and> newEvents w (snd (sendDebuggeeIsStoppedAt R params w))
         = map Some (drop (length (sent v)) (sent (snd (sendDebuggeeIsStopped R p v))))"
  using assms
  by (auto simp: sendDebuggeeIsStoppedAt_def sendDebuggeeIsStopped_def new_def sendEventAt_def
        sendEvent_def newEvents_def eventAt_def objectAt_def stoppedEventObject_def
        StoppedEvent2_def nth_append split: option.splits)

lemma sendExceptionThrownAt_refines:
  assumes "requestAt readExceptionThrownParameters (store w) params = Some p"
    and "handles v = registry w"
  shows "fst (sendExceptionThrownAt R params w)
         = map_sum Failed id (fst (sendExceptionThrown R p v))
     \<and> registry (snd (sendExceptionThrownAt R params w))
         = handles (snd (sendExceptionThrown R p v))
     \<and> take (length (delivered w)) (delivered (snd (sendExceptionThrownAt R params w)))
         = delivered w
     \<and> newEvents w (snd (sendExceptionThrownAt R params w))
         = map Some (drop (length (sent v)) (sent (snd (sendExceptionThrown R p v))))"
proof -
  let ?q = "\<lparr>outputText = toStackTraceString R (exceptionStackTrace p),
             IOutputParameters.category = IExceptionThrownParameters.category p,
             variablesReference = None,
             IOutputParameters.location = IExceptionThrownParameters.location p\<rparr>"
  obtain ob where e: "sendExceptionThrownAt R params w
      = sendOutputAt R (length (store w)) (w\<lparr>store := store w @ [ob]\<rparr>)"
    and r: "readOutputParameters ob = Some ?q"
    using assms(1)
    by (cases "IExceptionThrownParameters.location p")
       (simp_all add: sendExceptionThrownAt_def new_def readOutputParameters_def)
  let ?w = "w\<lparr>store := store w @ [ob]\<rparr>"
  have 1: "requestAt readOutputParameters (store ?w) (length (store w)) = Some ?q"
    using r by (simp add: requestAt_def objectAt_def)
  have 2: "handles v = registry ?w" using assms(2) by simp
  from sendOutputAt_refines [OF 1 2, of R] show ?thesis
    by (simp add: e sendExceptionThrown_def newEvents_def)
qed

end
